theory Spec2Isabelle
  imports Complex_Main
begin

section \<open>Tensors, errors and the predictor\<close>

text \<open>
  The embedding follows \<^verbatim>\<open>src/laplace/baselaplace.py\<close>. Tensors of floats are
  lists of reals (a vector) and lists of rows (a matrix); arithmetic is the arithmetic of
  the reals, so rounding, infinities and NaN of the floating-point tensors are not part of
  the model. Devices, autograd and progress bars are left out. Every \<^verbatim>\<open>raise\<close> of the
  source is a value of type \<open>error\<close>, with the message of the source.
\<close>

type_synonym vec = "real list"
type_synonym mat = "real list list"

datatype error =
    ValueError string
  | AttributeError string
  | RuntimeError string
  | IndexError string
  | TypeError string
  | AssertionError
  | NotImplementedError
  | ZeroDivisionError
  | StopIteration

text \<open>A call either returns a value with the object in a new state, or raises and leaves
  the object in the state it had reached at the \<^verbatim>\<open>raise\<close>.\<close>

datatype ('a, 's) outcome = Returns 'a 's | Raises error 's

text \<open>An argument that the source accepts as ``scalar or tensor'': a Python number,
  a tensor with no axis, a tensor with one axis, a tensor with more axes, or anything else.\<close>

datatype pyarg =
    PyScalar real
  | Tensor0 real
  | Tensor1 vec
  | TensorN vec
  | PyOther

text \<open>A stored tensor that may have no axis (\<^verbatim>\<open>torch.tensor(0.0)\<close>) or one axis.\<close>

datatype tensor01 = Dim0 real | Dim1 vec

text \<open>One parameter tensor of the predictor: its \<^verbatim>\<open>requires_grad\<close> flag and its
  entries in row-major order, so that \<^verbatim>\<open>p.numel()\<close> is the length of \<open>data\<close>.\<close>

record param =
  requires_grad :: bool
  data :: vec

definition numel :: "param \<Rightarrow> nat" where
  "numel p = length (data p)"

record model =
  parameters :: "param list"
  output_size :: "nat option"
  training :: bool

text \<open>\<^verbatim>\<open>torch.nn.utils.parameters_to_vector\<close>: the entries of the given parameter
  tensors, flattened and concatenated in order. On an empty list the \<^verbatim>\<open>torch.cat\<close>
  inside raises; \<open>flatten_parameters\<close> is the call with that error, and
  \<open>parameters_to_vector\<close> is the vector it returns otherwise.\<close>

definition parameters_to_vector :: "param list \<Rightarrow> vec" where
  "parameters_to_vector ps = concat (map data ps)"

definition flatten_parameters :: "param list \<Rightarrow> error + vec" where
  "flatten_parameters ps =
     (if ps = [] then Inl (RuntimeError ''torch.cat(): expected a non-empty list of Tensors'')
      else Inr (parameters_to_vector ps))"

text \<open>\<^verbatim>\<open>torch.nn.utils.vector_to_parameters(vec, self.params)\<close>, seen on the list
  \<^verbatim>\<open>model.parameters()\<close>: \<^verbatim>\<open>self.params\<close> holds references to the parameters that
  require a gradient, in order, so the frozen ones are passed over. A pointer walks through
  \<open>vec\<close>; each parameter takes the slice \<^verbatim>\<open>vec[pointer:pointer + numel]\<close>, and
  \<^verbatim>\<open>view_as\<close> raises a \<^verbatim>\<open>RuntimeError\<close> when the slice is shorter than the
  parameter. Parameters written before the failing one keep their new entries.\<close>

fun assign_slices :: "vec \<Rightarrow> param list \<Rightarrow> (unit, param list) outcome" where
  "assign_slices v [] = Returns () []"
| "assign_slices v (p # ps) =
     (if \<not> requires_grad p
      then (case assign_slices v ps of
              Returns u ps' \<Rightarrow> Returns u (p # ps')
            | Raises e ps' \<Rightarrow> Raises e (p # ps'))
      else if length (take (numel p) v) \<noteq> numel p
      then Raises (RuntimeError ''shape is invalid for input size'') (p # ps)
      else (case assign_slices (drop (numel p) v) ps of
              Returns u ps' \<Rightarrow> Returns u (p\<lparr>data := take (numel p) v\<rparr> # ps')
            | Raises e ps' \<Rightarrow> Raises e (p\<lparr>data := take (numel p) v\<rparr> # ps')))"

text \<open>A tensor with no axis cannot be sliced: the first parameter that asks for its slice
  raises an \<^verbatim>\<open>IndexError\<close>.\<close>

definition vector_to_parameters :: "tensor01 \<Rightarrow> param list \<Rightarrow> (unit, param list) outcome" where
  "vector_to_parameters t ps =
     (case t of
        Dim1 v \<Rightarrow> assign_slices v ps
      | Dim0 x \<Rightarrow>
          (if filter requires_grad ps = [] then Returns () ps
           else Raises (IndexError ''slice() cannot be applied to a 0-dim tensor.'') ps))"

section \<open>The approximation object\<close>

text \<open>The class of the object: the four parametric variants and the function-space one.\<close>

datatype variant = FullLaplace | KronLaplace | DiagLaplace | LowRankLaplace | FunctionalLaplace

datatype backend_cls =
    CurvlinopsGGN | CurvlinopsEF | BackPackGGN | BackPackEF | AsdlGGN | AsdlEF
  | AsdfghjklHessian
  | KwargsDict

text \<open>\<^verbatim>\<open>'backpack' in backend.__name__.lower()\<close>. \<open>KwargsDict\<close> stands for the
  dictionary that \<^verbatim>\<open>FunctionalLaplace.__init__\<close> hands over in the place of the backend
  class (see \<open>FunctionalLaplace_init\<close>); a dictionary has no \<^verbatim>\<open>__name__\<close>.\<close>

fun is_backpack :: "backend_cls \<Rightarrow> error + bool" where
  "is_backpack BackPackGGN = Inr True"
| "is_backpack BackPackEF = Inr True"
| "is_backpack KwargsDict = Inl (AttributeError ''dict object has no attribute __name__'')"
| "is_backpack _ = Inr False"

text \<open>\<^verbatim>\<open>laplace.utils.Kron\<close> holds \<^verbatim>\<open>kfacs\<close>, one list of one or two factor
  matrices for each parameter group.\<close>

type_synonym kron = "mat list list"

text \<open>The curvature \<^verbatim>\<open>self.H\<close>: a matrix (Dense), a vector (Diagonal), the summed
  Kronecker factors, their decomposition (represented by the factors and the damping flag it
  was computed from), or the eigenvectors and eigenvalues (Low-rank).\<close>

datatype curvature =
    Dense mat
  | Diagonal vec
  | KronFactors kron
  | KronDecomposed kron bool
  | EigenPairs mat vec

text \<open>The kernel state of the function-space variant: one matrix for each output channel
  (\<^verbatim>\<open>diagonal_kernel=True\<close>) or one joint matrix; likewise the likelihood curvature
  \<^verbatim>\<open>L\<close>, one vector for each output channel or one joint vector.\<close>

datatype kernel = PerOutput "mat list" | Joint mat

datatype lcurv = LPerOutput "vec list" | LJoint vec

text \<open>The attributes of the object. One record serves every class; the last eight fields are
  the ones the function-space variant adds and that the operations modelled here read or
  write (its training loader, \<^verbatim>\<open>seed\<close>, \<^verbatim>\<open>batch_size\<close>, \<^verbatim>\<open>mu\<close> and
  \<^verbatim>\<open>map_estimate\<close> are only used inside the collaborators and are left out).\<close>

record laplace =
  variant :: variant
  model :: model
  n_params :: nat
  n_layers :: nat
  prior_precision :: vec
  prior_mean :: tensor01
  sigma_noise :: real
  temperature :: real
  likelihood :: string
  reward_modeling :: bool
  enable_backprop :: bool
  backend_cls :: backend_cls
  loss :: real
  n_outputs :: "nat option"
  n_data :: nat
  H :: "curvature option"
  H_facs :: "kron option"
  damping :: bool
  mean :: tensor01
  posterior_scale_cached :: bool
  M :: "nat option"
  diagonal_kernel :: bool
  K_MM :: "kernel option"
  L :: "lcurv option"
  Sigma_inv :: "kernel option"
  prior_factor_sod :: "real option"
  fitted :: bool
  recompute_Sigma :: bool

text \<open>\<^verbatim>\<open>self.params\<close> is the list of the predictor's parameters that require a
  gradient (the flags are read at construction and are taken not to change afterwards). The
  list holds references to the predictor's tensors, so it is read from the predictor.\<close>

definition params :: "laplace \<Rightarrow> param list" where
  "params s = filter requires_grad (parameters (model s))"

definition is_subset_params :: "param list \<Rightarrow> bool" where
  "is_subset_params ps = (\<exists>p \<in> set ps. \<not> requires_grad p)"

subsection \<open>Setters\<close>

text \<open>\<^verbatim>\<open>self._device\<close> (lines 132--134) is \<^verbatim>\<open>next(self.model.parameters()).device\<close>,
  which raises \<^verbatim>\<open>StopIteration\<close> for a predictor without any parameter. The setters read
  it where they build or move a tensor; \<open>on_device\<close> is such a statement.\<close>

definition on_device :: "laplace \<Rightarrow> laplace \<Rightarrow> (unit, laplace) outcome" where
  "on_device s s' =
     (if parameters (model s) = [] then Raises StopIteration s else Returns () s')"

text \<open>The \<^verbatim>\<open>prior_precision\<close> setter of \<^verbatim>\<open>BaseLaplace\<close> (lines 245--267). The cached
  posterior scale is dropped first, also when the setter raises afterwards.\<close>

definition set_prior_precision_base :: "pyarg \<Rightarrow> laplace \<Rightarrow> (unit, laplace) outcome" where
  "set_prior_precision_base a s0 =
     (let s = s0\<lparr>posterior_scale_cached := False\<rparr> in
      case a of
        PyScalar x \<Rightarrow> on_device s (s\<lparr>prior_precision := [x]\<rparr>)
      | Tensor0 x \<Rightarrow> on_device s (s\<lparr>prior_precision := [x]\<rparr>)
      | Tensor1 v \<Rightarrow>
          (if length v \<notin> set [1, n_layers s, n_params s]
           then Raises (ValueError ''Length of prior precision does not align with architecture.'') s
           else on_device s (s\<lparr>prior_precision := v\<rparr>))
      | TensorN v \<Rightarrow>
          Raises (ValueError ''Prior precision needs to be at most one-dimensional tensor.'') s
      | PyOther \<Rightarrow>
          Raises (ValueError ''Prior precision either scalar or torch.Tensor up to 1-dim.'') s)"

text \<open>The setter in effect for the class of the object. \<^verbatim>\<open>KronLaplace\<close> (lines 1339--1344)
  runs the base setter and then raises on a length other than 1 or \<^verbatim>\<open>n_layers\<close>;
  \<^verbatim>\<open>FunctionalLaplace\<close> (lines 2481--2506) repeats the base setter and then sets
  \<^verbatim>\<open>_recompute_Sigma\<close>, which it does not reach when the base part raises.\<close>

definition set_prior_precision :: "pyarg \<Rightarrow> laplace \<Rightarrow> (unit, laplace) outcome" where
  "set_prior_precision a s0 =
     (case set_prior_precision_base a s0 of
        Raises e s \<Rightarrow> Raises e s
      | Returns u s \<Rightarrow>
          (if variant s = KronLaplace
           then (if length (prior_precision s) \<notin> set [1, n_layers s]
                 then Raises (ValueError ''Prior precision for Kron either scalar or per-layer.'') s
                 else Returns () s)
           else if variant s = FunctionalLaplace
           then Returns () (s\<lparr>recompute_Sigma := True\<rparr>)
           else Returns () s))"

text \<open>The \<^verbatim>\<open>prior_mean\<close> setter (lines 225--239). A tensor with one axis is stored
  as it is, without a look at the device.\<close>

definition set_prior_mean :: "pyarg \<Rightarrow> laplace \<Rightarrow> (unit, laplace) outcome" where
  "set_prior_mean a s =
     (case a of
        PyScalar x \<Rightarrow> on_device s (s\<lparr>prior_mean := Dim0 x\<rparr>)
      | Tensor0 x \<Rightarrow> on_device s (s\<lparr>prior_mean := Dim1 [x]\<rparr>)
      | Tensor1 v \<Rightarrow>
          (if length v \<notin> set [1, n_params s]
           then Raises (ValueError ''Invalid length of prior mean.'') s
           else Returns () (s\<lparr>prior_mean := Dim1 v\<rparr>))
      | TensorN v \<Rightarrow> Raises (ValueError ''Prior mean has too many dimensions!'') s
      | PyOther \<Rightarrow> Raises (ValueError ''Invalid argument type of prior mean.'') s)"

text \<open>The \<^verbatim>\<open>sigma_noise\<close> setter (lines 437--454). It looks at the shape of its
  argument only. \<^verbatim>\<open>sigma_noise[0]\<close> of an empty tensor raises an \<^verbatim>\<open>IndexError\<close>.\<close>

definition set_sigma_noise :: "pyarg \<Rightarrow> laplace \<Rightarrow> (unit, laplace) outcome" where
  "set_sigma_noise a s0 =
     (let s = s0\<lparr>posterior_scale_cached := False\<rparr> in
      case a of
        PyScalar x \<Rightarrow> on_device s (s\<lparr>sigma_noise := x\<rparr>)
      | Tensor0 x \<Rightarrow> on_device s (s\<lparr>sigma_noise := x\<rparr>)
      | Tensor1 v \<Rightarrow>
          (if length v > 1
           then Raises (ValueError ''Only homoscedastic output noise supported.'') s
           else (case v of
                   [] \<Rightarrow> Raises (IndexError ''index 0 is out of bounds for dimension 0 with size 0'') s
                 | x # _ \<Rightarrow> on_device s (s\<lparr>sigma_noise := x\<rparr>)))
      | TensorN v \<Rightarrow> Raises (ValueError ''Sigma noise needs to be scalar or 1-dimensional.'') s
      | PyOther \<Rightarrow>
          Raises (ValueError ''Invalid type: sigma noise needs to be torch.Tensor or scalar.'') s)"

subsection \<open>Derived quantities\<close>

text \<open>\<^verbatim>\<open>_H_factor\<close> (lines 456--459): \<^verbatim>\<open>1 / sigma2 / self.temperature\<close>.\<close>

definition H_factor :: "laplace \<Rightarrow> real" where
  "H_factor s = (let sigma2 = (sigma_noise s)\<^sup>2 in 1 / sigma2 / temperature s)"

text \<open>\<^verbatim>\<open>prior * torch.ones(n)\<close> for a tensor \<open>prior\<close> with one entry.\<close>

definition times_ones :: "real \<Rightarrow> nat \<Rightarrow> vec" where
  "times_ones prior n = map (\<lambda>one. prior * one) (replicate n 1)"

text \<open>\<^verbatim>\<open>prior_precision_diag\<close> (lines 192--219). The branches are tested in the
  order of the source: one entry, then \<^verbatim>\<open>n_params\<close> entries, then \<^verbatim>\<open>n_layers\<close>
  entries. \<^verbatim>\<open>torch.cat\<close> of an empty list raises. The device of the ones is that of an
  object that exists, so of a predictor with a parameter (see \<open>BaseLaplace_init\<close>).\<close>

definition prior_precision_diag :: "laplace \<Rightarrow> error + vec" where
  "prior_precision_diag s =
     (if length (prior_precision s) = 1
      then Inr (times_ones (hd (prior_precision s)) (n_params s))
      else if length (prior_precision s) = n_params s
      then Inr (prior_precision s)
      else if length (prior_precision s) = n_layers s
      then (let n_params_per_layer = map numel (params s);
                pieces = map (\<lambda>(prior, n). times_ones prior n)
                             (zip (prior_precision s) n_params_per_layer)
            in if pieces = []
               then Inl (RuntimeError ''torch.cat(): expected a non-empty list of Tensors'')
               else Inr (concat pieces))
      else Inl (ValueError ''Mismatch of prior and model. Diagonal, scalar, or per-layer prior.''))"

subsection \<open>Tensor arithmetic\<close>

text \<open>Elementwise operations follow the broadcasting rule of torch: two axes fit when
  they have the same size or one of them has size 1. A matrix is a list of rows of one
  length. \<open>None\<close> is the \<^verbatim>\<open>RuntimeError\<close> of a size mismatch.\<close>

definition bcast_vec :: "(real \<Rightarrow> real \<Rightarrow> real) \<Rightarrow> vec \<Rightarrow> vec \<Rightarrow> vec option" where
  "bcast_vec f a b =
     (if length a = length b then Some (map (\<lambda>(x, y). f x y) (zip a b))
      else if length a = 1 then Some (map (f (hd a)) b)
      else if length b = 1 then Some (map (\<lambda>x. f x (hd b)) a)
      else None)"

definition bcast_mat :: "(real \<Rightarrow> real \<Rightarrow> real) \<Rightarrow> mat \<Rightarrow> mat \<Rightarrow> mat option" where
  "bcast_mat f A B =
     (if length A = length B then those (map (\<lambda>(r, q). bcast_vec f r q) (zip A B))
      else if length A = 1 then those (map (bcast_vec f (hd A)) B)
      else if length B = 1 then those (map (\<lambda>r. bcast_vec f r (hd B)) A)
      else None)"

text \<open>In-place addition \<^verbatim>\<open>a += b\<close> keeps the shape of \<open>a\<close>: only \<open>b\<close> is broadcast.\<close>

definition iadd_vec :: "vec \<Rightarrow> vec \<Rightarrow> vec option" where
  "iadd_vec a b =
     (if length b = length a then Some (map (\<lambda>(x, y). x + y) (zip a b))
      else if length b = 1 then Some (map (\<lambda>x. x + hd b) a)
      else None)"

definition iadd_mat :: "mat \<Rightarrow> mat \<Rightarrow> mat option" where
  "iadd_mat A B =
     (if length B = length A then those (map (\<lambda>(r, q). iadd_vec r q) (zip A B))
      else if length B = 1 then those (map (\<lambda>r. iadd_vec r (hd B)) A)
      else None)"

definition scalar_times_vec :: "real \<Rightarrow> vec \<Rightarrow> vec" where
  "scalar_times_vec c v = map (\<lambda>x. c * x) v"

definition scalar_times_mat :: "real \<Rightarrow> mat \<Rightarrow> mat" where
  "scalar_times_mat c A = map (scalar_times_vec c) A"

text \<open>\<^verbatim>\<open>torch.diag(v)\<close> of a vector: the square matrix with \<open>v\<close> on its diagonal.\<close>

definition torch_diag :: "vec \<Rightarrow> mat" where
  "torch_diag v =
     map (\<lambda>i. map (\<lambda>j. if i = j then v ! i else 0) [0 ..< length v]) [0 ..< length v]"

definition size_mismatch :: error where
  "size_mismatch = RuntimeError ''The size of tensor a must match the size of tensor b''"

subsection \<open>Posterior precision\<close>

text \<open>\<^verbatim>\<open>_check_H_init\<close> (lines 519--521).\<close>

definition check_H_init :: "laplace \<Rightarrow> error + curvature" where
  "check_H_init s =
     (case H s of
        None \<Rightarrow> Inl (AttributeError ''Laplace not fitted. Run fit() first.'')
      | Some h \<Rightarrow> Inr h)"

text \<open>\<^verbatim>\<open>FullLaplace.posterior_precision\<close> (lines 1175--1185):
  \<^verbatim>\<open>self._H_factor * self.H + torch.diag(self.prior_precision_diag)\<close>.\<close>

definition FullLaplace_posterior_precision :: "laplace \<Rightarrow> error + mat" where
  "FullLaplace_posterior_precision s =
     (case check_H_init s of
        Inl e \<Rightarrow> Inl e
      | Inr (Dense A) \<Rightarrow>
          (let scaled = scalar_times_mat (H_factor s) A in
           case prior_precision_diag s of
             Inl e \<Rightarrow> Inl e
           | Inr p0 \<Rightarrow>
               (case bcast_mat (+) scaled (torch_diag p0) of
                  None \<Rightarrow> Inl size_mismatch
                | Some P \<Rightarrow> Inr P))
      | Inr _ \<Rightarrow> Inl (TypeError ''H is not a matrix''))"

text \<open>\<^verbatim>\<open>DiagLaplace.posterior_precision\<close> (lines 1508--1518):
  \<^verbatim>\<open>self._H_factor * self.H + self.prior_precision_diag\<close>.\<close>

definition DiagLaplace_posterior_precision :: "laplace \<Rightarrow> error + vec" where
  "DiagLaplace_posterior_precision s =
     (case check_H_init s of
        Inl e \<Rightarrow> Inl e
      | Inr (Diagonal h) \<Rightarrow>
          (let scaled = scalar_times_vec (H_factor s) h in
           case prior_precision_diag s of
             Inl e \<Rightarrow> Inl e
           | Inr p0 \<Rightarrow>
               (case bcast_vec (+) scaled p0 of
                  None \<Rightarrow> Inl size_mismatch
                | Some P \<Rightarrow> Inr P))
      | Inr _ \<Rightarrow> Inl (TypeError ''H is not a vector''))"

section \<open>Collaborators\<close>

text \<open>A batch of the data stream is a pair \<^verbatim>\<open>(X, y)\<close> of tensors or a mapping
  (\<^verbatim>\<open>isinstance(data, MutableMapping)\<close>) with its number of keys; its content \<open>'x\<close> is
  opaque. A loader yields its batches in order and knows
  \<^verbatim>\<open>len(train_loader.dataset)\<close>.\<close>

datatype 'x batch = TensorBatch 'x | MappingBatch nat 'x

fun is_mapping :: "'x batch \<Rightarrow> bool" where
  "is_mapping (MappingBatch k d) = True"
| "is_mapping (TensorBatch d) = False"

text \<open>\<^verbatim>\<open>X, _ = next(iter(train_loader))\<close> followed by a forward pass on
  \<^verbatim>\<open>X[:1].to(self._device)\<close>, for a mapping: unpacking iterates over the keys and raises
  a \<^verbatim>\<open>ValueError\<close> unless there are two of them; with two keys \<^verbatim>\<open>X\<close> is a key, a
  string, which has no \<^verbatim>\<open>to\<close> (also not in the handler of lines 1428--1429).\<close>

definition unpack_mapping :: "nat \<Rightarrow> error" where
  "unpack_mapping k =
     (if k < 2 then ValueError ''not enough values to unpack (expected 2)''
      else if k > 2 then ValueError ''too many values to unpack (expected 2)''
      else AttributeError ''str object has no attribute to'')"

record 'x loader =
  batches :: "'x batch list"
  dataset_len :: nat

text \<open>What the object calls and what is numerical linear algebra or random: the predictor's
  forward pass (\<open>out_dim\<close>: the last axis of its output on the first batch; \<open>forward\<close>: its
  output), the curvature backend of \<^verbatim>\<open>laplace.curvature\<close>, the Kronecker factors of
  \<^verbatim>\<open>laplace.utils\<close>, the vectors that \<^verbatim>\<open>self.sample(n_samples)\<close> yields, the linearised
  predictive \<^verbatim>\<open>_glm_predictive_distribution\<close> of the parametric and of the function-space
  classes (Jacobians and functional variance; the latter reads \<^verbatim>\<open>Sigma_inv\<close>),
  \<^verbatim>\<open>torch.linalg.cholesky\<close>, the pass over the training subset in
  \<^verbatim>\<open>FunctionalLaplace.fit\<close> that sums the loss and builds \<^verbatim>\<open>K_MM\<close> and \<^verbatim>\<open>L\<close>,
  the value \<^verbatim>\<open>log_likelihood - 0.5 * (log_det_ratio + scatter)\<close>, and
  \<^verbatim>\<open>laplace.utils.validate\<close>. They are parameters of the model. The backend functions
  get the predictor's current parameters and, as in the source, the data set size \<open>N\<close>.
  They are taken to return; the ones that can raise say so in their type.\<close>

text \<open>A Python float as a validation loss: not a number, minus infinity, a finite value
  or plus infinity.\<close>

datatype fl = NaN | NegInf | Fin real | PosInf

record ('x, 'd) collab =
  out_dim :: "param list \<Rightarrow> 'x batch \<Rightarrow> nat"
  backend_full :: "param list \<Rightarrow> 'x batch \<Rightarrow> nat \<Rightarrow> real \<times> mat"
  backend_diag :: "param list \<Rightarrow> 'x batch \<Rightarrow> nat \<Rightarrow> real \<times> vec"
  backend_kron :: "param list \<Rightarrow> 'x batch \<Rightarrow> nat \<Rightarrow> real \<times> kron"
  backend_eig_lowrank :: "param list \<Rightarrow> 'x loader \<Rightarrow> mat \<times> vec \<times> real"
  Kron_init_from_model :: "param list \<Rightarrow> kron"
  Kron_add :: "kron \<Rightarrow> kron \<Rightarrow> kron"
  forward :: "param list \<Rightarrow> 'x \<Rightarrow> mat"
  sample :: "laplace \<Rightarrow> nat \<Rightarrow> error + vec list"
  glm_predictive_distribution :: "laplace \<Rightarrow> 'x \<Rightarrow> bool \<Rightarrow> error + 'd"
  cholesky :: "mat \<Rightarrow> mat option"
  gp_kernel_pass :: "laplace \<Rightarrow> 'x loader \<Rightarrow> real \<times> kernel \<times> lcurv"
  gp_predictive_distribution :: "laplace \<Rightarrow> 'x \<Rightarrow> bool \<Rightarrow> error + 'd"
  marglik_value :: "laplace \<Rightarrow> error + real"
  validate :: "laplace \<Rightarrow> (fl, laplace) outcome"

section \<open>Construction\<close>

record init_args =
  arg_model :: model
  arg_likelihood :: string
  arg_sigma_noise :: pyarg
  arg_prior_precision :: pyarg
  arg_prior_mean :: pyarg
  arg_temperature :: real
  arg_enable_backprop :: bool
  arg_backend :: "backend_cls option"
  arg_backend_kwargs_given :: bool
  arg_damping :: bool
  arg_diagonal_kernel :: bool

text \<open>An object before \<^verbatim>\<open>__init__\<close> has set any attribute. The values are placeholders:
  the constructors below write every field before anything reads it.\<close>

definition blank :: "variant \<Rightarrow> model \<Rightarrow> laplace" where
  "blank cls m =
     \<lparr> variant = cls, model = m, n_params = 0, n_layers = 0, prior_precision = [],
       prior_mean = Dim0 0, sigma_noise = 1, temperature = 1, likelihood = [],
       reward_modeling = False, enable_backprop = False, backend_cls = CurvlinopsGGN,
       loss = 0, n_outputs = None, n_data = 0, H = None, H_facs = None, damping = False,
       mean = Dim0 0, posterior_scale_cached = False, M = None, diagonal_kernel = False,
       K_MM = None, L = None, Sigma_inv = None, prior_factor_sod = None, fitted = False,
       recompute_Sigma = True \<rparr>"

text \<open>The truth value of \<^verbatim>\<open>sigma_noise != 1\<close>. A tensor with more or fewer than one
  entry has no truth value; anything that is not a number differs from 1.\<close>

fun differs_from_one :: "pyarg \<Rightarrow> error + bool" where
  "differs_from_one (PyScalar x) = Inr (x \<noteq> 1)"
| "differs_from_one (Tensor0 x) = Inr (x \<noteq> 1)"
| "differs_from_one (Tensor1 v) =
     (case v of [x] \<Rightarrow> Inr (x \<noteq> 1)
      | _ \<Rightarrow> Inl (RuntimeError ''Boolean value of Tensor is ambiguous''))"
| "differs_from_one (TensorN v) =
     (case v of [x] \<Rightarrow> Inr (x \<noteq> 1)
      | _ \<Rightarrow> Inl (RuntimeError ''Boolean value of Tensor is ambiguous''))"
| "differs_from_one PyOther = Inr True"

text \<open>\<^verbatim>\<open>BaseLaplace.__init__\<close> (lines 67--130), run on the object \<open>s0\<close> of the class
  under construction. The backend argument \<open>backend\<close> is what arrives in the parameter
  \<^verbatim>\<open>backend\<close>.\<close>

definition BaseLaplace_init ::
  "init_args \<Rightarrow> bool \<Rightarrow> backend_cls option \<Rightarrow> laplace \<Rightarrow> error + laplace" where
  "BaseLaplace_init a enable_backprop_arg backend s0 =
     (if arg_likelihood a \<notin> set [''classification'', ''regression'', ''reward_modeling'']
      then Inl (ValueError (''Invalid likelihood type '' @ arg_likelihood a))
      else
        let ps = parameters (arg_model a);
            s1 = s0\<lparr>model := arg_model a,
                    n_params := sum_list (map numel (filter requires_grad ps)),
                    n_layers := length (filter requires_grad ps)\<rparr>
        in case set_prior_precision (arg_prior_precision a) s1 of
             Raises e _ \<Rightarrow> Inl e
           | Returns _ s2 \<Rightarrow>
        (case set_prior_mean (arg_prior_mean a) s2 of
             Raises e _ \<Rightarrow> Inl e
           | Returns _ s3 \<Rightarrow>
        (case differs_from_one (arg_sigma_noise a) of
             Inl e \<Rightarrow> Inl e
           | Inr differs \<Rightarrow>
        (if differs \<and> arg_likelihood a \<noteq> ''regression''
         then Inl (ValueError ''Sigma noise != 1 only available for regression.'')
         else
           let rm = (arg_likelihood a = ''reward_modeling'');
               s4 = s3\<lparr>reward_modeling := rm,
                       likelihood := (if rm then ''classification'' else arg_likelihood a)\<rparr>
           in case set_sigma_noise (arg_sigma_noise a) s4 of
                Raises e _ \<Rightarrow> Inl e
              | Returns _ s5 \<Rightarrow>
           (let s6 = s5\<lparr>temperature := arg_temperature a,
                        enable_backprop := enable_backprop_arg\<rparr>;
                finish = (\<lambda>b. Inr (s6\<lparr>backend_cls := b, loss := 0, n_outputs := None,
                                       n_data := 0\<rparr>))
            in case backend of
                 None \<Rightarrow> finish CurvlinopsGGN
               | Some b \<Rightarrow>
                   (if is_subset_params ps
                    then (case is_backpack b of
                            Inl e \<Rightarrow> Inl e
                          | Inr True \<Rightarrow> Inl (ValueError
                              ''If some grad are switched off, the BackPACK backend is not supported.'')
                          | Inr False \<Rightarrow> finish b)
                    else finish b))))))"

text \<open>\<^verbatim>\<open>_init_H\<close> of each parametric class.\<close>

definition init_H :: "('x, 'd) collab \<Rightarrow> laplace \<Rightarrow> (unit, laplace) outcome" where
  "init_H c s =
     (case variant s of
        FullLaplace \<Rightarrow>
          Returns () (s\<lparr>H := Some (Dense (replicate (n_params s) (replicate (n_params s) 0)))\<rparr>)
      | DiagLaplace \<Rightarrow> Returns () (s\<lparr>H := Some (Diagonal (replicate (n_params s) 0))\<rparr>)
      | KronLaplace \<Rightarrow> Returns () (s\<lparr>H := Some (KronFactors (Kron_init_from_model c (params s)))\<rparr>)
      | LowRankLaplace \<Rightarrow> Returns () (s\<lparr>H := None\<rparr>)
      | FunctionalLaplace \<Rightarrow> Raises NotImplementedError s)"

text \<open>The constructors of the parametric classes: \<^verbatim>\<open>KronLaplace\<close> sets \<^verbatim>\<open>damping\<close>
  and \<^verbatim>\<open>H_facs\<close> first; \<^verbatim>\<open>ParametricLaplace.__init__\<close> (lines 486--514) runs the base
  constructor, then \<^verbatim>\<open>_init_H\<close> and \<^verbatim>\<open>self.mean = self.prior_mean\<close>;
  \<^verbatim>\<open>FullLaplace\<close> clears the cached scale last.\<close>

definition ParametricLaplace_init ::
  "('x, 'd) collab \<Rightarrow> variant \<Rightarrow> init_args \<Rightarrow> error + laplace" where
  "ParametricLaplace_init c cls a =
     (let s0 = (blank cls (arg_model a))\<lparr>damping := (cls = KronLaplace \<and> arg_damping a),
                                         H_facs := None\<rparr>
      in case BaseLaplace_init a (arg_enable_backprop a) (arg_backend a) s0 of
           Inl e \<Rightarrow> Inl e
         | Inr s1 \<Rightarrow>
             (case init_H c s1 of
                Raises e _ \<Rightarrow> Inl e
              | Returns _ s2 \<Rightarrow>
                  Inr (s2\<lparr>mean := prior_mean s2, posterior_scale_cached := False\<rparr>)))"

section \<open>Fitting\<close>

text \<open>\<^verbatim>\<open>_curv_closure\<close> of \<^verbatim>\<open>FullLaplace\<close>, \<^verbatim>\<open>KronLaplace\<close> and
  \<^verbatim>\<open>DiagLaplace\<close>; the base class raises \<^verbatim>\<open>NotImplementedError\<close>.\<close>

definition curv_closure ::
  "('x, 'd) collab \<Rightarrow> laplace \<Rightarrow> 'x batch \<Rightarrow> nat \<Rightarrow> error + real \<times> curvature" where
  "curv_closure c s d N =
     (case variant s of
        FullLaplace \<Rightarrow>
          (case backend_full c (parameters (model s)) d N of (l, h) \<Rightarrow> Inr (l, Dense h))
      | KronLaplace \<Rightarrow>
          (case backend_kron c (parameters (model s)) d N of (l, h) \<Rightarrow> Inr (l, KronFactors h))
      | DiagLaplace \<Rightarrow>
          (case backend_diag c (parameters (model s)) d N of (l, h) \<Rightarrow> Inr (l, Diagonal h))
      | _ \<Rightarrow> Inl NotImplementedError)"

text \<open>\<^verbatim>\<open>self.H += H_batch\<close>.\<close>

definition H_iadd :: "('x, 'd) collab \<Rightarrow> curvature option \<Rightarrow> curvature \<Rightarrow> error + curvature" where
  "H_iadd c h hb =
     (case (h, hb) of
        (Some (Dense A), Dense B) \<Rightarrow>
          (case iadd_mat A B of None \<Rightarrow> Inl size_mismatch | Some C \<Rightarrow> Inr (Dense C))
      | (Some (Diagonal a), Diagonal b) \<Rightarrow>
          (case iadd_vec a b of None \<Rightarrow> Inl size_mismatch | Some v \<Rightarrow> Inr (Diagonal v))
      | (Some (KronFactors K), KronFactors Kb) \<Rightarrow> Inr (KronFactors (Kron_add c K Kb))
      | _ \<Rightarrow> Inl (TypeError ''unsupported operand type(s) for +='' ))"

text \<open>The loop over the batches in \<^verbatim>\<open>ParametricLaplace.fit\<close> (lines 577--586).\<close>

fun accumulate ::
  "('x, 'd) collab \<Rightarrow> nat \<Rightarrow> 'x batch list \<Rightarrow> laplace \<Rightarrow> (unit, laplace) outcome" where
  "accumulate c N [] s = Returns () s"
| "accumulate c N (d # rest) s =
     (case curv_closure c s d N of
        Inl e \<Rightarrow> Raises e s
      | Inr (loss_batch, H_batch) \<Rightarrow>
          (let s1 = s\<lparr>loss := loss s + loss_batch\<rparr> in
           case H_iadd c (H s1) H_batch of
             Inl e \<Rightarrow> Raises e s1
           | Inr h \<Rightarrow> accumulate c N rest (s1\<lparr>H := Some h\<rparr>)))"

text \<open>\<^verbatim>\<open>ParametricLaplace.fit\<close> (lines 523--588). \<^verbatim>\<open>parameters_to_vector\<close>
  raises when there is no trainable tensor, and \<^verbatim>\<open>next(iter(train_loader))\<close> raises
  \<^verbatim>\<open>StopIteration\<close> on a loader without batches.\<close>

definition ParametricLaplace_fit ::
  "('x, 'd) collab \<Rightarrow> 'x loader \<Rightarrow> bool \<Rightarrow> laplace \<Rightarrow> (unit, laplace) outcome" where
  "ParametricLaplace_fit c train_loader override s0 =
     (case (if override
            then (case init_H c s0 of
                    Returns u s \<Rightarrow> Returns u (s\<lparr>loss := 0, n_data := 0\<rparr>)
                  | Raises e s \<Rightarrow> Raises e s)
            else Returns () s0) of
        Raises e s \<Rightarrow> Raises e s
      | Returns _ s1 \<Rightarrow>
          (let s2 = s1\<lparr>model := (model s1)\<lparr>training := False\<rparr>\<rparr> in
           case flatten_parameters (params s2) of
             Inl e \<Rightarrow> Raises e s2
           | Inr v \<Rightarrow>
          (let s3 = s2\<lparr>mean := Dim1 v\<rparr>
           in case batches train_loader of
                [] \<Rightarrow> Raises StopIteration s3
              | d # _ \<Rightarrow>
                  (if is_mapping d \<and> variant s3 = DiagLaplace \<and> backend_cls s3 = CurvlinopsEF
                   then Raises (ValueError
                     ''Currently DiagEF is not supported under CurvlinopsEF backend for custom models with non-tensor inputs'') s3
                   else
                     let out = out_dim c (parameters (model s3)) d;
                         s4 = s3\<lparr>n_outputs := Some out,
                                 model := (model s3)\<lparr>output_size := Some out\<rparr>\<rparr>;
                         N = dataset_len train_loader
                     in case accumulate c N (batches train_loader) s4 of
                          Raises e s \<Rightarrow> Raises e s
                        | Returns _ s5 \<Rightarrow> Returns () (s5\<lparr>n_data := n_data s5 + N\<rparr>)))))"

text \<open>\<^verbatim>\<open>KronLaplace._rescale_factors\<close> (lines 1263--1268): in every group with two
  factors the second one is multiplied by \<open>factor\<close>.\<close>

definition rescale_factors :: "kron \<Rightarrow> real \<Rightarrow> kron" where
  "rescale_factors kfacs factor =
     map (\<lambda>F. if length F = 2 then [F ! 0, scalar_times_mat factor (F ! 1)] else F) kfacs"

text \<open>\<^verbatim>\<open>KronLaplace.fit\<close> (lines 1270--1294). The divisions are Python divisions of
  integers and raise on a zero divisor. \<^verbatim>\<open>decompose\<close> is kept symbolic.\<close>

definition KronLaplace_fit ::
  "('x, 'd) collab \<Rightarrow> 'x loader \<Rightarrow> bool \<Rightarrow> laplace \<Rightarrow> (unit, laplace) outcome" where
  "KronLaplace_fit c train_loader override s0 =
     (let s1 = (if override then s0\<lparr>H_facs := None\<rparr> else s0) in
      case H_facs s1 of
        None \<Rightarrow>
          (case ParametricLaplace_fit c train_loader override s1 of
             Raises e s \<Rightarrow> Raises e s
           | Returns _ s2 \<Rightarrow>
               (case H s2 of
                  Some (KronFactors K) \<Rightarrow>
                    Returns () (s2\<lparr>H_facs := Some K, H := Some (KronDecomposed K (damping s2))\<rparr>)
                | _ \<Rightarrow> Raises (AttributeError ''object has no attribute decompose'') s2))
      | Some old_facs \<Rightarrow>
          (let n_data_old = n_data s1;
               n_data_new = dataset_len train_loader
           in case init_H c s1 of
                Raises e s \<Rightarrow> Raises e s
              | Returns _ s2 \<Rightarrow>
                  (if n_data_old + n_data_new = 0 then Raises ZeroDivisionError s2
                   else
                     let s3 = s2\<lparr>H_facs := Some (rescale_factors old_facs
                                  (real n_data_old / real (n_data_old + n_data_new)))\<rparr>
                     in case ParametricLaplace_fit c train_loader override s3 of
                          Raises e s \<Rightarrow> Raises e s
                        | Returns _ s4 \<Rightarrow>
                            (case (H s4, H_facs s4) of
                               (Some (KronFactors K), Some facs) \<Rightarrow>
                                 (let K' = rescale_factors K
                                             (real n_data_new / real (n_data_new + n_data_old));
                                      facs' = Kron_add c facs K'
                                  in Returns () (s4\<lparr>H_facs := Some facs',
                                         H := Some (KronDecomposed facs' (damping s4))\<rparr>))
                             | _ \<Rightarrow> Raises (TypeError ''unsupported operand type(s)'') s4))))"

text \<open>\<^verbatim>\<open>LowRankLaplace.fit\<close> (lines 1412--1437). The mean is the flattening of
  \<^verbatim>\<open>self.model.parameters()\<close>, and the batch is unpacked as
  \<^verbatim>\<open>X, _ = next(iter(train_loader))\<close> (see \<open>unpack_mapping\<close>).\<close>

definition LowRankLaplace_fit ::
  "('x, 'd) collab \<Rightarrow> 'x loader \<Rightarrow> bool \<Rightarrow> laplace \<Rightarrow> (unit, laplace) outcome" where
  "LowRankLaplace_fit c train_loader override s0 =
     (if \<not> override then Raises (ValueError ''LowRank LA does not support updating.'') s0
      else
        let s1 = s0\<lparr>model := (model s0)\<lparr>training := False\<rparr>\<rparr> in
        case flatten_parameters (parameters (model s1)) of
          Inl e \<Rightarrow> Raises e s1
        | Inr v \<Rightarrow>
       (let s2 = s1\<lparr>mean := Dim1 v\<rparr>
        in case batches train_loader of
             [] \<Rightarrow> Raises StopIteration s2
           | d # _ \<Rightarrow>
               (case d of
                  MappingBatch k x \<Rightarrow> Raises (unpack_mapping k) s2
                | TensorBatch x \<Rightarrow>
                    (let out = out_dim c (parameters (model s2)) d;
                         s3 = s2\<lparr>n_outputs := Some out,
                                 model := (model s2)\<lparr>output_size := Some out\<rparr>\<rparr>
                     in case backend_eig_lowrank c (parameters (model s3)) train_loader of
                          (eigenvectors, eigenvalues, l) \<Rightarrow>
                            Returns () (s3\<lparr>H := Some (EigenPairs eigenvectors eigenvalues),
                                           loss := l,
                                           n_data := dataset_len train_loader\<rparr>)))))"

section \<open>Marginal likelihood\<close>

text \<open>\<^verbatim>\<open>log_marginal_likelihood\<close> (lines 672--702, and the same text at lines
  2446--2475 for the function-space class). An argument that is not \<^verbatim>\<open>None\<close> is stored
  through its setter before the value is computed.\<close>

definition log_marginal_likelihood ::
  "('x, 'd) collab \<Rightarrow> pyarg option \<Rightarrow> pyarg option \<Rightarrow> laplace \<Rightarrow> (real, laplace) outcome" where
  "log_marginal_likelihood c prior_precision_arg sigma_noise_arg s0 =
     (case (case prior_precision_arg of
              None \<Rightarrow> Returns () s0
            | Some pp \<Rightarrow> set_prior_precision pp s0) of
        Raises e s \<Rightarrow> Raises e s
      | Returns _ s1 \<Rightarrow>
          (case (case sigma_noise_arg of
                   None \<Rightarrow> Returns () s1
                 | Some sn \<Rightarrow>
                     (if likelihood s1 \<noteq> ''regression''
                      then Raises (ValueError ''Can only change sigma_noise for regression.'') s1
                      else set_sigma_noise sn s1)) of
             Raises e s \<Rightarrow> Raises e s
           | Returns _ s2 \<Rightarrow>
               (case marglik_value c s2 of
                  Inl e \<Rightarrow> Raises e s2
                | Inr v \<Rightarrow> Returns v s2)))"

section \<open>Predictive of the parametric classes\<close>

text \<open>The \<^verbatim>\<open>generator\<close> argument: \<^verbatim>\<open>None\<close>, a \<^verbatim>\<open>torch.Generator\<close> on the device
  of the input, or anything else.\<close>

datatype generator = NoGenerator | GoodGenerator | BadGenerator

text \<open>What a predictive call returns, by the branch that computed it. The arithmetic that
  turns the linearised distribution \<open>'d\<close> or the network outputs into the returned tensors
  (softmax, mean, variance, the probit and bridge formulas) is not evaluated: the value
  records the branch and its inputs.\<close>

datatype 'd prediction =
    RegressionGLM 'd
  | ClassificationMC 'd nat bool
  | ClassificationProbit 'd
  | ClassificationBridge 'd bool
  | RegressionNN "mat list"
  | ClassificationNN "mat list" nat

definition with_parameters :: "laplace \<Rightarrow> param list \<Rightarrow> laplace" where
  "with_parameters s ps = s\<lparr>model := (model s)\<lparr>parameters := ps\<rparr>\<rparr>"

text \<open>The loop shared by \<^verbatim>\<open>_nn_predictive_samples\<close> and
  \<^verbatim>\<open>_nn_predictive_classification\<close>: each sample is written into the trainable
  parameters and the predictor is run.\<close>

fun nn_loop ::
  "('x, 'd) collab \<Rightarrow> 'x \<Rightarrow> vec list \<Rightarrow> mat list \<Rightarrow> laplace \<Rightarrow> (mat list, laplace) outcome" where
  "nn_loop c X [] fs s = Returns fs s"
| "nn_loop c X (smp # rest) fs s =
     (case vector_to_parameters (Dim1 smp) (parameters (model s)) of
        Raises e ps \<Rightarrow> Raises e (with_parameters s ps)
      | Returns _ ps \<Rightarrow>
          (let s1 = with_parameters s ps;
               logits = forward c (parameters (model s1)) X
           in nn_loop c X rest (fs @ [logits]) s1))"

text \<open>\<^verbatim>\<open>_nn_predictive_samples\<close> (lines 906--918). \<^verbatim>\<open>torch.stack\<close> of an empty list
  raises, after the parameters have been written back.\<close>

definition nn_predictive_samples ::
  "('x, 'd) collab \<Rightarrow> 'x \<Rightarrow> nat \<Rightarrow> laplace \<Rightarrow> (mat list, laplace) outcome" where
  "nn_predictive_samples c X n_samples s =
     (case sample c s n_samples of
        Inl e \<Rightarrow> Raises e s
      | Inr samples \<Rightarrow>
          (case nn_loop c X samples [] s of
             Raises e s1 \<Rightarrow> Raises e s1
           | Returns fs s1 \<Rightarrow>
               (case vector_to_parameters (mean s1) (parameters (model s1)) of
                  Raises e ps \<Rightarrow> Raises e (with_parameters s1 ps)
                | Returns _ ps \<Rightarrow>
                    (if fs = []
                     then Raises (RuntimeError ''stack expects a non-empty TensorList'')
                            (with_parameters s1 ps)
                     else Returns fs (with_parameters s1 ps)))))"

text \<open>\<^verbatim>\<open>_nn_predictive_classification\<close> (lines 920--929).\<close>

definition nn_predictive_classification ::
  "('x, 'd) collab \<Rightarrow> 'x \<Rightarrow> nat \<Rightarrow> laplace \<Rightarrow> (mat list, laplace) outcome" where
  "nn_predictive_classification c X n_samples s =
     (case sample c s n_samples of
        Inl e \<Rightarrow> Raises e s
      | Inr samples \<Rightarrow>
          (case nn_loop c X samples [] s of
             Raises e s1 \<Rightarrow> Raises e s1
           | Returns fs s1 \<Rightarrow>
               (case vector_to_parameters (mean s1) (parameters (model s1)) of
                  Raises e ps \<Rightarrow> Raises e (with_parameters s1 ps)
                | Returns _ ps \<Rightarrow> Returns fs (with_parameters s1 ps))))"

text \<open>The switch of a reward-modelling object at its first prediction (lines 779--782 and
  1981--1984).\<close>

definition reward_switch :: "laplace \<Rightarrow> laplace" where
  "reward_switch s =
     (if reward_modeling s \<and> likelihood s = ''classification''
      then s\<lparr>likelihood := ''regression'', model := (model s)\<lparr>output_size := Some 1\<rparr>\<rparr>
      else s)"

text \<open>\<^verbatim>\<open>ParametricLaplace.__call__\<close> (lines 704--831).\<close>

definition ParametricLaplace_call ::
  "('x, 'd) collab \<Rightarrow> 'x \<Rightarrow> string \<Rightarrow> bool \<Rightarrow> string \<Rightarrow> nat \<Rightarrow> bool \<Rightarrow> generator \<Rightarrow> laplace
     \<Rightarrow> ('d prediction, laplace) outcome" where
  "ParametricLaplace_call c x pred_type joint link_approx n_samples diagonal_output gen s0 =
     (if pred_type \<notin> set [''glm'', ''nn'']
      then Raises (ValueError ''Only glm and nn supported as prediction types.'') s0
      else if link_approx \<notin> set [''mc'', ''probit'', ''bridge'', ''bridge_norm'']
      then Raises (ValueError (''Unsupported link approximation '' @ link_approx @ ''.'')) s0
      else if pred_type = ''nn'' \<and> link_approx \<noteq> ''mc''
      then Raises (ValueError
             ''Only mc link approximation is supported for nn prediction type.'') s0
      else if gen = BadGenerator
      then Raises (ValueError ''Invalid random generator (check type and device).'') s0
      else
        let s = reward_switch s0 in
        if pred_type = ''glm''
        then (case glm_predictive_distribution c s x (joint \<and> likelihood s = ''regression'') of
                Inl e \<Rightarrow> Raises e s
              | Inr d \<Rightarrow>
                  (if likelihood s = ''regression'' then Returns (RegressionGLM d) s
                   else if link_approx = ''mc''
                   then (case glm_predictive_distribution c s x False of
                           Inl e \<Rightarrow> Raises e s
                         | Inr d' \<Rightarrow> Returns (ClassificationMC d' n_samples diagonal_output) s)
                   else if link_approx = ''probit'' then Returns (ClassificationProbit d) s
                   else Returns (ClassificationBridge d (link_approx = ''bridge_norm'')) s))
        else if likelihood s = ''regression''
        then (case nn_predictive_samples c x n_samples s of
                Raises e s1 \<Rightarrow> Raises e s1
              | Returns fs s1 \<Rightarrow> Returns (RegressionNN fs) s1)
        else (case nn_predictive_classification c x n_samples s of
                Raises e s1 \<Rightarrow> Raises e s1
              | Returns fs s1 \<Rightarrow> Returns (ClassificationNN fs n_samples) s1))"

section \<open>The function-space class\<close>

text \<open>\<^verbatim>\<open>_check_prior_precision\<close> (lines 1656--1667): a tensor must have no axis, or one
  axis and one entry.\<close>

fun check_prior_precision :: "pyarg \<Rightarrow> error option" where
  "check_prior_precision (Tensor1 v) =
     (if length v = 1 then None
      else Some (ValueError ''Only isotropic priors supported in FunctionalLaplace''))"
| "check_prior_precision (TensorN v) =
     Some (ValueError ''Only isotropic priors supported in FunctionalLaplace'')"
| "check_prior_precision _ = None"

text \<open>\<^verbatim>\<open>FunctionalLaplace.__init__\<close> (lines 1607--1654). The call of the base constructor
  passes its arguments by position, so \<^verbatim>\<open>backend\<close> arrives as \<^verbatim>\<open>enable_backprop\<close>
  (a class, which is true) and \<^verbatim>\<open>backend_kwargs\<close> arrives as \<^verbatim>\<open>backend\<close>;
  \<^verbatim>\<open>enable_backprop\<close> is assigned again afterwards.\<close>

definition FunctionalLaplace_init :: "init_args \<Rightarrow> nat option \<Rightarrow> error + laplace" where
  "FunctionalLaplace_init a M_arg =
     (if arg_backend a \<notin> set [Some BackPackGGN, Some AsdlGGN] then Inl AssertionError
      else case check_prior_precision (arg_prior_precision a) of
             Some e \<Rightarrow> Inl e
           | None \<Rightarrow>
               (case BaseLaplace_init a True
                       (if arg_backend_kwargs_given a then Some KwargsDict else None)
                       (blank FunctionalLaplace (arg_model a)) of
                  Inl e \<Rightarrow> Inl e
                | Inr s \<Rightarrow>
                    Inr (s\<lparr>enable_backprop := arg_enable_backprop a, M := M_arg,
                           diagonal_kernel := arg_diagonal_kernel a, K_MM := None,
                           Sigma_inv := None, prior_factor_sod := None, L := None,
                           fitted := False, recompute_Sigma := True\<rparr>)))"

text \<open>\<^verbatim>\<open>gp_kernel_prior_variance\<close> (lines 2050--2052):
  \<^verbatim>\<open>self._prior_factor_sod / self.prior_precision\<close>, a tensor with the shape of the
  prior precision.\<close>

definition gp_kernel_prior_variance :: "laplace \<Rightarrow> error + vec" where
  "gp_kernel_prior_variance s =
     (case prior_factor_sod s of
        None \<Rightarrow> Inl (TypeError ''unsupported operand type(s) for /: NoneType and Tensor'')
      | Some f \<Rightarrow> Inr (map (\<lambda>p. f / p) (prior_precision s)))"

text \<open>\<^verbatim>\<open>torch.nan_to_num(1.0 / (self._H_factor * lam), posinf=10.0)\<close>: the reciprocal of a
  zero is replaced by 10.\<close>

definition inv_curvature :: "real \<Rightarrow> vec \<Rightarrow> vec" where
  "inv_curvature hf lam = map (\<lambda>l. if hf * l = 0 then 10 else 1 / (hf * l)) lam"

text \<open>One regularised kernel and its Cholesky factor:
  \<^verbatim>\<open>cholesky(gp_kernel_prior_variance * K + diag(nan_to_num(1 / (H_factor * lam))))\<close>.
  The prior variance, a tensor with one axis, is broadcast along the rows of \<open>K\<close>.\<close>

definition sigma_factor :: "('x, 'd) collab \<Rightarrow> vec \<Rightarrow> real \<Rightarrow> mat \<Rightarrow> vec \<Rightarrow> error + mat" where
  "sigma_factor c gpv hf K lam =
     (case bcast_mat (*) [gpv] K of
        None \<Rightarrow> Inl size_mismatch
      | Some scaled \<Rightarrow>
          (case bcast_mat (+) scaled (torch_diag (inv_curvature hf lam)) of
             None \<Rightarrow> Inl size_mismatch
           | Some R \<Rightarrow>
               (case cholesky c R of
                  None \<Rightarrow> Inl (RuntimeError ''linalg.cholesky: the input is not positive-definite'')
                | Some C \<Rightarrow> Inr C)))"

text \<open>The list comprehension of the diagonal-kernel branch: \<^verbatim>\<open>self.K_MM[c]\<close> for each
  \<^verbatim>\<open>c, lambda_c in enumerate(self.L)\<close>.\<close>

fun sigma_factors ::
  "('x, 'd) collab \<Rightarrow> vec \<Rightarrow> real \<Rightarrow> mat list \<Rightarrow> nat \<Rightarrow> vec list \<Rightarrow> error + mat list" where
  "sigma_factors c gpv hf Ks i [] = Inr []"
| "sigma_factors c gpv hf Ks i (lam # lams) =
     (if i \<ge> length Ks then Inl (IndexError ''list index out of range'')
      else case sigma_factor c gpv hf (Ks ! i) lam of
             Inl e \<Rightarrow> Inl e
           | Inr C \<Rightarrow>
               (case sigma_factors c gpv hf Ks (Suc i) lams of
                  Inl e \<Rightarrow> Inl e
                | Inr Cs \<Rightarrow> Inr (C # Cs)))"

text \<open>The value that \<^verbatim>\<open>_build_Sigma_inv\<close> (lines 1761--1789) computes from the current
  prior precision, noise, temperature, kernel and likelihood curvature.\<close>

definition Sigma_inv_of :: "('x, 'd) collab \<Rightarrow> laplace \<Rightarrow> error + kernel" where
  "Sigma_inv_of c s =
     (case (diagonal_kernel s, K_MM s, L s) of
        (True, Some (PerOutput Ks), Some (LPerOutput lams)) \<Rightarrow>
          (case gp_kernel_prior_variance s of
             Inl e \<Rightarrow> Inl e
           | Inr gpv \<Rightarrow>
               (case sigma_factors c gpv (H_factor s) Ks 0 lams of
                  Inl e \<Rightarrow> Inl e
                | Inr Cs \<Rightarrow> Inr (PerOutput Cs)))
      | (False, Some (Joint K), Some (LJoint lam)) \<Rightarrow>
          (case gp_kernel_prior_variance s of
             Inl e \<Rightarrow> Inl e
           | Inr gpv \<Rightarrow>
               (case sigma_factor c gpv (H_factor s) K lam of
                  Inl e \<Rightarrow> Inl e
                | Inr C \<Rightarrow> Inr (Joint C)))
      | _ \<Rightarrow> Inl (TypeError ''kernel state does not fit diagonal_kernel''))"

definition build_Sigma_inv :: "('x, 'd) collab \<Rightarrow> laplace \<Rightarrow> (unit, laplace) outcome" where
  "build_Sigma_inv c s =
     (case Sigma_inv_of c s of
        Inl e \<Rightarrow> Raises e s
      | Inr S \<Rightarrow> Returns () (s\<lparr>Sigma_inv := Some S\<rparr>))"

text \<open>\<^verbatim>\<open>FunctionalLaplace.fit\<close> (lines 1802--1882). The pass over the batches of the
  training subset, which sums the loss and fills \<^verbatim>\<open>K_MM\<close> and \<^verbatim>\<open>L\<close>, is the
  collaborator \<open>gp_kernel_pass\<close>; the batch is unpacked as in \<open>LowRankLaplace_fit\<close>.\<close>

definition FunctionalLaplace_fit ::
  "('x, 'd) collab \<Rightarrow> 'x loader \<Rightarrow> laplace \<Rightarrow> (unit, laplace) outcome" where
  "FunctionalLaplace_fit c train_loader s0 =
     (case batches train_loader of
        [] \<Rightarrow> Raises StopIteration s0
      | d # _ \<Rightarrow>
          (case d of
             MappingBatch k x \<Rightarrow> Raises (unpack_mapping k) s0
           | TensorBatch x \<Rightarrow>
            (let out = out_dim c (parameters (model s0)) d;
                 s1 = s0\<lparr>n_outputs := Some out,
                         model := (model s0)\<lparr>output_size := Some out, training := False\<rparr>\<rparr>;
                 N = dataset_len train_loader;
                 s2 = s1\<lparr>n_data := N\<rparr>;
                 s3 = (if M s2 = None then s2\<lparr>M := Some N\<rparr> else s2)
             in if n_data s3 = 0 then Raises ZeroDivisionError s3
                else
                  let s4 = s3\<lparr>prior_factor_sod := Some (real (the (M s3)) / real (n_data s3))\<rparr>
                  in case gp_kernel_pass c s4 train_loader of
                       (l, K, lam) \<Rightarrow>
                         (let s5 = s4\<lparr>loss := loss s4 + l, K_MM := Some K, L := Some lam\<rparr> in
                          case build_Sigma_inv c s5 of
                            Raises e s \<Rightarrow> Raises e s
                          | Returns _ s6 \<Rightarrow> Returns () (s6\<lparr>fitted := True\<rparr>)))))"

text \<open>\<^verbatim>\<open>fit\<close> of an object, by its class. \<^verbatim>\<open>FullLaplace.fit\<close> (lines 1142--1144)
  clears the cached scale first; \<^verbatim>\<open>DiagLaplace\<close> inherits \<^verbatim>\<open>ParametricLaplace.fit\<close>;
  the second positional argument of \<^verbatim>\<open>FunctionalLaplace.fit\<close> is its
  \<^verbatim>\<open>progress_bar\<close>.\<close>

definition fit ::
  "('x, 'd) collab \<Rightarrow> 'x loader \<Rightarrow> bool \<Rightarrow> laplace \<Rightarrow> (unit, laplace) outcome" where
  "fit c train_loader override s =
     (case variant s of
        FullLaplace \<Rightarrow>
          ParametricLaplace_fit c train_loader override (s\<lparr>posterior_scale_cached := False\<rparr>)
      | DiagLaplace \<Rightarrow> ParametricLaplace_fit c train_loader override s
      | KronLaplace \<Rightarrow> KronLaplace_fit c train_loader override s
      | LowRankLaplace \<Rightarrow> LowRankLaplace_fit c train_loader override s
      | FunctionalLaplace \<Rightarrow> FunctionalLaplace_fit c train_loader s)"


section \<open>Grid search over the prior precision\<close>

text \<open>\<^verbatim>\<open>x >= y\<close> on floats: false as soon as one side is not a number.\<close>

fun fl_ge :: "fl \<Rightarrow> fl \<Rightarrow> bool" where
  "fl_ge NaN y = False"
| "fl_ge x NaN = False"
| "fl_ge x NegInf = True"
| "fl_ge PosInf y = True"
| "fl_ge NegInf y = False"
| "fl_ge (Fin a) (Fin b) = (a \<ge> b)"
| "fl_ge (Fin a) PosInf = False"

text \<open>\<^verbatim>\<open>np.argmin\<close> on a list of floats, as numpy computes it: the candidate replaces
  the running minimum \<open>mp\<close> when \<^verbatim>\<open>!(x >= mp)\<close>, and the scan stops at the first value
  that is not a number. An empty list raises.\<close>

fun argmin_scan :: "fl list \<Rightarrow> nat \<Rightarrow> fl \<Rightarrow> nat \<Rightarrow> nat" where
  "argmin_scan [] i mp min_ind = min_ind"
| "argmin_scan (x # xs) i mp min_ind =
     (if \<not> fl_ge x mp
      then (if x = NaN then i else argmin_scan xs (Suc i) x i)
      else argmin_scan xs (Suc i) mp min_ind)"

definition np_argmin :: "fl list \<Rightarrow> error + nat" where
  "np_argmin xs =
     (case xs of
        [] \<Rightarrow> Inl (ValueError ''attempt to get argmin of an empty sequence'')
      | x # rest \<Rightarrow> Inr (if x = NaN then 0 else argmin_scan rest 1 x 0))"

text \<open>The loop of \<^verbatim>\<open>_gridsearch\<close> (lines 409--430). A grid point is an entry of the tensor
  \<^verbatim>\<open>interval\<close>, a tensor with no axis. A \<^verbatim>\<open>RuntimeError\<close> of \<^verbatim>\<open>validate\<close> is
  caught and scored \<^verbatim>\<open>np.inf\<close>; any other exception leaves the loop.\<close>

fun gridsearch_loop ::
  "('x, 'd) collab \<Rightarrow> real list \<Rightarrow> fl list \<Rightarrow> real list \<Rightarrow> laplace
     \<Rightarrow> (fl list \<times> real list, laplace) outcome" where
  "gridsearch_loop c [] results prior_precs s = Returns (results, prior_precs) s"
| "gridsearch_loop c (prior_prec # rest) results prior_precs s0 =
     (case set_prior_precision (Tensor0 prior_prec) s0 of
        Raises e s \<Rightarrow> Raises e s
      | Returns _ s1 \<Rightarrow>
          (case validate c s1 of
             Returns result s2 \<Rightarrow>
               gridsearch_loop c rest (results @ [result]) (prior_precs @ [prior_prec]) s2
           | Raises (RuntimeError msg) s2 \<Rightarrow>
               gridsearch_loop c rest (results @ [PosInf]) (prior_precs @ [prior_prec]) s2
           | Raises e s2 \<Rightarrow> Raises e s2))"

text \<open>\<^verbatim>\<open>_gridsearch\<close> (lines 393--431): \<^verbatim>\<open>prior_precs[np.argmin(results)]\<close>.\<close>

definition gridsearch ::
  "('x, 'd) collab \<Rightarrow> real list \<Rightarrow> laplace \<Rightarrow> (real, laplace) outcome" where
  "gridsearch c interval s0 =
     (case gridsearch_loop c interval [] [] s0 of
        Raises e s \<Rightarrow> Raises e s
      | Returns (results, prior_precs) s \<Rightarrow>
          (case np_argmin results of
             Inl e \<Rightarrow> Raises e s
           | Inr k \<Rightarrow> Returns (prior_precs ! k) s))"

section \<open>Notions used in the statements\<close>

text \<open>The state in which a call leaves the object, whether it returns or raises, and the
  predictions of the regression branches.\<close>

fun final_state :: "('a, 's) outcome \<Rightarrow> 's" where
  "final_state (Returns r s) = s"
| "final_state (Raises e s) = s"

fun returned :: "('a, 's) outcome \<Rightarrow> bool" where
  "returned (Returns r s) = True"
| "returned (Raises e s) = False"


text \<open>What the constructor computes and nothing changes afterwards: \<^verbatim>\<open>n_params\<close> is the
  number of entries of the trainable parameters and \<^verbatim>\<open>n_layers\<close> their count
  (lines 94--95).\<close>

definition consistent_counts :: "laplace \<Rightarrow> bool" where
  "consistent_counts s \<longleftrightarrow>
     n_params s = sum_list (map numel (params s)) \<and> n_layers s = length (params s)"

text \<open>What the \<^verbatim>\<open>prior_precision\<close> setter lets through.\<close>

definition prior_precision_valid :: "laplace \<Rightarrow> bool" where
  "prior_precision_valid s \<longleftrightarrow> length (prior_precision s) \<in> {1, n_layers s, n_params s}"

definition square_of_size :: "nat \<Rightarrow> mat \<Rightarrow> bool" where
  "square_of_size n A \<longleftrightarrow> length A = n \<and> (\<forall>row \<in> set A. length row = n)"

text \<open>The manual broadcasts of a prior precision, written from the specification: a scalar
  repeated, and each per-layer value repeated over the entries of its layer.\<close>

definition broadcast_scalar :: "real \<Rightarrow> nat \<Rightarrow> vec" where
  "broadcast_scalar x n = replicate n x"

definition broadcast_layerwise :: "vec \<Rightarrow> nat list \<Rightarrow> vec" where
  "broadcast_layerwise xs ns = concat (map (\<lambda>(x, n). replicate n x) (zip xs ns))"

text \<open>A backend whose contribution for a batch does not depend on the data set size it is
  told, and the stream that yields the batches of one loader and then those of another.\<close>

definition backend_ignores_N :: "('x, 'd) collab \<Rightarrow> bool" where
  "backend_ignores_N c \<longleftrightarrow>
     (\<forall>ps d N N'. backend_full c ps d N = backend_full c ps d N'
                 \<and> backend_diag c ps d N = backend_diag c ps d N')"

definition concat_loaders :: "'x loader \<Rightarrow> 'x loader \<Rightarrow> 'x loader" where
  "concat_loaders l1 l2 =
     \<lparr> batches = batches l1 @ batches l2, dataset_len = dataset_len l1 + dataset_len l2 \<rparr>"

text \<open>The state in which the loop of \<^verbatim>\<open>ParametricLaplace.fit\<close> starts, for the first
  batch \<open>d\<close>.\<close>

definition fit_start :: "('x, 'd) collab \<Rightarrow> bool \<Rightarrow> laplace \<Rightarrow> 'x batch \<Rightarrow> laplace" where
  "fit_start c override s0 d =
     (let s1 = (if override
                then (case init_H c s0 of
                        Returns u s \<Rightarrow> s\<lparr>loss := 0, n_data := 0\<rparr>
                      | Raises e s \<Rightarrow> s)
                else s0);
          s2 = s1\<lparr>model := (model s1)\<lparr>training := False\<rparr>\<rparr>;
          s3 = s2\<lparr>mean := Dim1 (parameters_to_vector (params s2))\<rparr>;
          out = out_dim c (parameters (model s3)) d
      in s3\<lparr>n_outputs := Some out, model := (model s3)\<lparr>output_size := Some out\<rparr>\<rparr>)"

text \<open>Two parameter lists of one predictor at two moments: the same flags and sizes, and
  the frozen tensors untouched.\<close>

definition same_layout :: "param list \<Rightarrow> param list \<Rightarrow> bool" where
  "same_layout ps qs \<longleftrightarrow>
     list_all2 (\<lambda>p q. requires_grad q = requires_grad p \<and> numel q = numel p
                     \<and> (\<not> requires_grad p \<longrightarrow> q = p)) ps qs"

section \<open>Example objects\<close>

text \<open>A predictor with two trainable parameter tensors, one with a frozen tensor in front,
  collaborators that return constants of the right shape, and a loader with two batches.\<close>

definition ex_model :: model where
  "ex_model = \<lparr> parameters = [\<lparr>requires_grad = True, data = [1]\<rparr>,
                                \<lparr>requires_grad = True, data = [2, 3]\<rparr>],
                 output_size = None, training = True \<rparr>"

definition ex_frozen_model :: model where
  "ex_frozen_model = \<lparr> parameters = [\<lparr>requires_grad = False, data = [5]\<rparr>,
                                       \<lparr>requires_grad = True, data = [1, 2]\<rparr>],
                        output_size = None, training = True \<rparr>"

definition ex_args :: "model \<Rightarrow> string \<Rightarrow> pyarg \<Rightarrow> init_args" where
  "ex_args m lik pp =
     \<lparr> arg_model = m, arg_likelihood = lik, arg_sigma_noise = PyScalar 1,
       arg_prior_precision = pp, arg_prior_mean = PyScalar 0, arg_temperature = 1,
       arg_enable_backprop = False, arg_backend = None, arg_backend_kwargs_given = False,
       arg_damping = False, arg_diagonal_kernel = False \<rparr>"

definition ex_collab :: "(nat, unit) collab" where
  "ex_collab =
     \<lparr> out_dim = (\<lambda>ps d. 1),
       backend_full = (\<lambda>ps d N.
          (let n = sum_list (map numel (filter requires_grad ps))
           in (1, replicate n (replicate n 1)))),
       backend_diag = (\<lambda>ps d N.
          (1, replicate (sum_list (map numel (filter requires_grad ps))) 1)),
       backend_kron = (\<lambda>ps d N. (1, [])),
       backend_eig_lowrank = (\<lambda>ps l. ([], [], 0)),
       Kron_init_from_model = (\<lambda>ps. []),
       Kron_add = (\<lambda>a b. a),
       forward = (\<lambda>ps x. [[0]]),
       sample = (\<lambda>s n. Inr (replicate n (replicate (n_params s) 0))),
       glm_predictive_distribution = (\<lambda>s x joint. Inr ()),
       cholesky = (\<lambda>A. Some A),
       gp_kernel_pass = (\<lambda>s l. (0, Joint [[1]], LJoint [1])),
       gp_predictive_distribution = (\<lambda>s x joint. Inr ()),
       marglik_value = (\<lambda>s. Inr 0),
       validate = (\<lambda>s. Returns (Fin 0) s) \<rparr>"

definition ex_loader :: "nat loader" where
  "ex_loader = \<lparr> batches = [TensorBatch 0, TensorBatch 1], dataset_len = 4 \<rparr>"

text \<open>The object that the constructor of a parametric class returns, and the object after
  one fit on the example loader.\<close>

definition ex_object :: "variant \<Rightarrow> model \<Rightarrow> string \<Rightarrow> pyarg \<Rightarrow> laplace" where
  "ex_object cls m lik pp =
     (case ParametricLaplace_init ex_collab cls (ex_args m lik pp) of
        Inr s \<Rightarrow> s
      | Inl e \<Rightarrow> blank cls m)"

definition ex_fitted :: "variant \<Rightarrow> model \<Rightarrow> string \<Rightarrow> pyarg \<Rightarrow> laplace" where
  "ex_fitted cls m lik pp =
     (case fit ex_collab ex_loader True (ex_object cls m lik pp) of
        Returns u s \<Rightarrow> s
      | Raises e s \<Rightarrow> s)"

text \<open>A fitted diagonal object whose predictor was trained further after the fit: the
  trainable tensors hold 7, 8, 9 while \<open>mean\<close> still holds the values at the fit.\<close>

definition ex_moved :: laplace where
  "ex_moved =
     with_parameters (ex_fitted DiagLaplace ex_model ''classification'' (PyScalar 1))
       [\<lparr>requires_grad = True, data = [7]\<rparr>, \<lparr>requires_grad = True, data = [8, 9]\<rparr>]"

text \<open>A function-space object, constructed with the BackPACK backend and fitted on the
  example loader.\<close>

definition ex_gp :: laplace where
  "ex_gp =
     (case FunctionalLaplace_init
             ((ex_args ex_model ''regression'' (PyScalar 1))\<lparr>arg_backend := Some BackPackGGN\<rparr>)
             None of
        Inr s \<Rightarrow> final_state (FunctionalLaplace_fit ex_collab ex_loader s)
      | Inl e \<Rightarrow> blank FunctionalLaplace ex_model)"

section \<open>Evaluating the examples\<close>

lemmas init_defs = ParametricLaplace_init_def BaseLaplace_init_def ex_args_def ex_model_def
  ex_frozen_model_def blank_def set_prior_precision_def set_prior_precision_base_def
  set_prior_mean_def set_sigma_noise_def init_H_def numel_def Let_def ex_collab_def
  params_def is_subset_params_def on_device_def

lemmas fit_defs = fit_def LowRankLaplace_fit_def ParametricLaplace_fit_def ex_loader_def
  parameters_to_vector_def flatten_parameters_def curv_closure_def H_iadd_def iadd_vec_def
  iadd_mat_def

section \<open>General facts\<close>

lemma those_map_Some:
  "(\<And>x. x \<in> set xs \<Longrightarrow> f x = Some (g x)) \<Longrightarrow> those (map f xs) = Some (map g xs)"
  by (induction xs) simp_all

lemma bcast_vec_same:
  "length a = length b \<Longrightarrow> bcast_vec f a b = Some (map (\<lambda>(x, y). f x y) (zip a b))"
  by (simp add: bcast_vec_def)

lemma bcast_mat_same:
  assumes "length A = length B" "\<forall>i < length A. length (A ! i) = length (B ! i)"
  shows "bcast_mat f A B = Some (map (\<lambda>(r, q). map (\<lambda>(x, y). f x y) (zip r q)) (zip A B))"
proof -
  have "those (map (\<lambda>(r, q). bcast_vec f r q) (zip A B))
      = Some (map (\<lambda>(r, q). map (\<lambda>(x, y). f x y) (zip r q)) (zip A B))"
  proof (rule those_map_Some)
    fix p assume "p \<in> set (zip A B)"
    then obtain i where "i < length A" "p = (A ! i, B ! i)"
      using assms(1) by (auto simp: set_zip)
    with assms(2) show "(case p of (r, q) \<Rightarrow> bcast_vec f r q)
        = Some (case p of (r, q) \<Rightarrow> map (\<lambda>(x, y). f x y) (zip r q))"
      by (simp add: bcast_vec_same)
  qed
  with assms(1) show ?thesis by (simp add: bcast_mat_def)
qed

lemma torch_diag_nth:
  "i < length v \<Longrightarrow> j < length v \<Longrightarrow> torch_diag v ! i ! j = (if i = j then v ! i else 0)"
  by (simp add: torch_diag_def)

lemma H_factor_eq: "H_factor s = 1 / ((sigma_noise s)\<^sup>2 * temperature s)"
  by (simp add: H_factor_def Let_def divide_divide_eq_left)

lemma times_ones_replicate: "times_ones x n = replicate n x"
  by (simp add: times_ones_def)

lemma length_parameters_to_vector:
  "length (parameters_to_vector ps) = sum_list (map numel ps)"
  by (induction ps) (simp_all add: parameters_to_vector_def numel_def)

section \<open>Broadcasting the prior precision\<close>

lemma length_broadcast_layerwise:
  "length xs = length ns \<Longrightarrow> length (broadcast_layerwise xs ns) = sum_list ns"
  unfolding broadcast_layerwise_def
  by (induction xs ns rule: list_induct2) simp_all

lemma pieces_layerwise:
  "concat (map (\<lambda>(prior, n). times_ones prior n) (zip xs ns)) = broadcast_layerwise xs ns"
  unfolding broadcast_layerwise_def times_ones_replicate ..

lemma sum_eq_length_ones:
  fixes ns :: "nat list"
  shows "\<forall>n \<in> set ns. 0 < n \<Longrightarrow> sum_list ns = length ns \<Longrightarrow> \<forall>n \<in> set ns. n = 1"
proof (induction ns)
  case Nil
  then show ?case by simp
next
  case (Cons a ns)
  have pos: "\<forall>n \<in> set ns. 0 < n" and a: "0 < a" using Cons.prems(1) by simp_all
  have ge: "length ns \<le> sum_list ns"
    using pos
  proof (induction ns)
    case Nil
    then show ?case by simp
  next
    case (Cons b bs)
    then have "0 < b" "length bs \<le> sum_list bs" by simp_all
    then show ?case by simp
  qed
  from Cons.prems(2) have "a + sum_list ns = Suc (length ns)" by simp
  with a ge have "a = 1" "sum_list ns = length ns" by linarith+
  with Cons.IH pos show ?case by simp
qed

lemma broadcast_layerwise_ones:
  "length xs = length ns \<Longrightarrow> \<forall>n \<in> set ns. n = 1 \<Longrightarrow> broadcast_layerwise xs ns = xs"
  unfolding broadcast_layerwise_def
  by (induction xs ns rule: list_induct2) simp_all

lemma broadcast_layerwise_nth:
  "length xs = length ns \<Longrightarrow> l < length ns \<Longrightarrow> j < ns ! l \<Longrightarrow>
   broadcast_layerwise xs ns ! (sum_list (take l ns) + j) = xs ! l"
proof (induction xs ns arbitrary: l rule: list_induct2)
  case Nil
  then show ?case by simp
next
  case (Cons x xs n ns)
  show ?case
  proof (cases l)
    case 0
    with Cons.prems show ?thesis
      by (simp add: broadcast_layerwise_def nth_append)
  next
    case (Suc l')
    with Cons.prems have "l' < length ns" "j < ns ! l'" by simp_all
    from Cons.IH[OF this] Suc show ?thesis
      by (simp add: broadcast_layerwise_def nth_append add.assoc)
  qed
qed

text \<open>
  Claim C6. For a stored prior precision of length 1, \<^verbatim>\<open>n_layers\<close> or \<^verbatim>\<open>n_params\<close>,
  \<^verbatim>\<open>prior_precision_diag\<close> returns a vector of length \<^verbatim>\<open>n_params\<close> that is the manual
  broadcast of the input: the scalar repeated \<^verbatim>\<open>n_params\<close> times for length 1, the vector
  itself for length \<^verbatim>\<open>n_params\<close>, each per-layer value repeated over the entries of its
  layer for length \<^verbatim>\<open>n_layers\<close>. For any other length it fails with the shape-mismatch
  error. Where two lengths coincide the broadcasts coincide too; the only exception is a
  predictor with an empty parameter tensor and \<^verbatim>\<open>n_layers = n_params\<close>, where the source
  takes the vector itself.
\<close>

theorem prior_precision_diag_broadcast:
  assumes wf: "consistent_counts s"
  shows "(length (prior_precision s) = 1 \<longrightarrow>
            prior_precision_diag s = Inr (broadcast_scalar (hd (prior_precision s)) (n_params s)))
       \<and> (length (prior_precision s) = n_params s \<longrightarrow>
            prior_precision_diag s = Inr (prior_precision s))
       \<and> (length (prior_precision s) = n_layers s
            \<and> (length (prior_precision s) \<noteq> n_params s \<or> (\<forall>p \<in> set (params s). 0 < numel p)) \<longrightarrow>
            prior_precision_diag s
              = Inr (broadcast_layerwise (prior_precision s) (map numel (params s))))
       \<and> (length (prior_precision s) \<in> {1, n_layers s, n_params s} \<longrightarrow>
            (\<exists>v. prior_precision_diag s = Inr v \<and> length v = n_params s))
       \<and> (length (prior_precision s) \<notin> {1, n_layers s, n_params s} \<longrightarrow>
            prior_precision_diag s
              = Inl (ValueError ''Mismatch of prior and model. Diagonal, scalar, or per-layer prior.''))"
proof -
  let ?pp = "prior_precision s" and ?ns = "map numel (params s)"
  from wf have np: "n_params s = sum_list ?ns" and nl: "n_layers s = length ?ns"
    by (simp_all add: consistent_counts_def)
  have scalar: "prior_precision_diag s = Inr (broadcast_scalar (hd ?pp) (n_params s))"
    if "length ?pp = 1"
    using that by (simp add: prior_precision_diag_def times_ones_replicate broadcast_scalar_def)
  have diag: "prior_precision_diag s = Inr ?pp" if len: "length ?pp = n_params s"
  proof (cases "length ?pp = 1")
    case True
    then obtain x where "?pp = [x]" by (cases ?pp) simp_all
    with len have "n_params s = Suc 0" by simp
    with \<open>?pp = [x]\<close> show ?thesis
      by (simp add: prior_precision_diag_def times_ones_replicate)
  next
    case False
    with len show ?thesis by (simp add: prior_precision_diag_def)
  qed
  have layer_one: "broadcast_layerwise ?pp ?ns = broadcast_scalar (hd ?pp) (n_params s)"
    if "length ?pp = n_layers s" "length ?pp = 1"
  proof -
    from that nl obtain x n where "?pp = [x]" "?ns = [n]"
      by (cases ?pp; cases ?ns) simp_all
    with np show ?thesis
      by (simp add: broadcast_layerwise_def broadcast_scalar_def)
  qed
  have layer_diag: "broadcast_layerwise ?pp ?ns = ?pp"
    if "length ?pp = n_layers s" "length ?pp = n_params s" "\<forall>p \<in> set (params s). 0 < numel p"
  proof -
    from that np nl have "sum_list ?ns = length ?ns" "\<forall>n \<in> set ?ns. 0 < n" by auto
    then have "\<forall>n \<in> set ?ns. n = 1" using sum_eq_length_ones by blast
    with that(1) nl show ?thesis by (simp add: broadcast_layerwise_ones)
  qed
  have layer_plain: "prior_precision_diag s = Inr (broadcast_layerwise ?pp ?ns)"
    if len: "length ?pp = n_layers s" and "length ?pp \<noteq> 1" "length ?pp \<noteq> n_params s"
  proof -
    have "?pp \<noteq> []" "params s \<noteq> []"
      using that np nl by auto
    then have "zip ?pp ?ns \<noteq> []" by (cases ?pp; cases "params s") simp_all
    with that show ?thesis
      by (simp add: prior_precision_diag_def pieces_layerwise Let_def)
  qed
  have layer: "prior_precision_diag s = Inr (broadcast_layerwise ?pp ?ns)"
    if len: "length ?pp = n_layers s"
      and alt: "length ?pp \<noteq> n_params s \<or> (\<forall>p \<in> set (params s). 0 < numel p)"
  proof (cases "length ?pp = 1")
    case True
    with scalar layer_one[OF len] show ?thesis by simp
  next
    case False
    show ?thesis
    proof (cases "length ?pp = n_params s")
      case True
      with alt diag layer_diag[OF len] show ?thesis by simp
    next
      case neq: False
      from layer_plain[OF len False neq] show ?thesis .
    qed
  qed
  have len_ok: "\<exists>v. prior_precision_diag s = Inr v \<and> length v = n_params s"
    if mem: "length ?pp \<in> {1, n_layers s, n_params s}"
  proof -
    consider "length ?pp = 1" | "length ?pp = n_params s"
      | "length ?pp = n_layers s" "length ?pp \<noteq> 1" "length ?pp \<noteq> n_params s"
      using mem by blast
    then show ?thesis
    proof cases
      case 1
      with scalar show ?thesis by (simp add: broadcast_scalar_def)
    next
      case 2
      with diag show ?thesis by simp
    next
      case 3
      with layer_plain np nl show ?thesis
        by (simp add: length_broadcast_layerwise)
    qed
  qed
  have bad: "prior_precision_diag s
      = Inl (ValueError ''Mismatch of prior and model. Diagonal, scalar, or per-layer prior.'')"
    if "length ?pp \<notin> {1, n_layers s, n_params s}"
    using that by (simp add: prior_precision_diag_def)
  from scalar diag layer len_ok bad show ?thesis by blast
qed

theorem prior_precision_diag_broadcast_witness:
  "consistent_counts (ex_object DiagLaplace ex_model ''regression'' (Tensor1 [4, 5]))
   \<and> length (prior_precision (ex_object DiagLaplace ex_model ''regression'' (Tensor1 [4, 5])))
       = n_layers (ex_object DiagLaplace ex_model ''regression'' (Tensor1 [4, 5]))
   \<and> prior_precision_diag (ex_object DiagLaplace ex_model ''regression'' (Tensor1 [4, 5]))
       = Inr [4, 5, 5]"
proof -
  let ?s = "ex_object DiagLaplace ex_model ''regression'' (Tensor1 [4, 5])"
  have wf: "consistent_counts ?s"
    by (simp add: ex_object_def consistent_counts_def init_defs)
  have len: "length (prior_precision ?s) = n_layers ?s"
    "length (prior_precision ?s) \<noteq> n_params ?s"
    by (simp_all add: ex_object_def init_defs)
  have bc: "broadcast_layerwise (prior_precision ?s) (map numel (params ?s)) = [4, 5, 5]"
    by (simp add: broadcast_layerwise_def ex_object_def init_defs numeral_2_eq_2)
  from prior_precision_diag_broadcast[OF wf] len
  have "prior_precision_diag ?s
      = Inr (broadcast_layerwise (prior_precision ?s) (map numel (params ?s)))"
    by blast
  with wf len(1) bc show ?thesis by simp
qed

section \<open>Posterior precision\<close>

lemma length_pieces:
  "length xs = length ns \<Longrightarrow>
   length (concat (map (\<lambda>(prior, n). times_ones prior n) (zip xs ns))) = sum_list ns"
  by (induction xs ns rule: list_induct2) (simp_all add: times_ones_def)

lemma prior_precision_diag_length:
  assumes "consistent_counts s" "prior_precision_valid s"
  obtains p0 where "prior_precision_diag s = Inr p0" "length p0 = n_params s"
proof -
  let ?pp = "prior_precision s" and ?ns = "map numel (params s)"
  from assms(1) have np: "n_params s = sum_list ?ns" and nl: "n_layers s = length ?ns"
    by (simp_all add: consistent_counts_def)
  consider "length ?pp = 1" | "length ?pp \<noteq> 1" "length ?pp = n_params s"
    | "length ?pp = n_layers s" "length ?pp \<noteq> 1" "length ?pp \<noteq> n_params s"
    using assms(2) unfolding prior_precision_valid_def by blast
  then show ?thesis
  proof cases
    case 1
    then show ?thesis
      by (intro that[of "times_ones (hd ?pp) (n_params s)"])
         (simp_all add: prior_precision_diag_def times_ones_def)
  next
    case 2
    then show ?thesis
      by (intro that[of ?pp]) (simp_all add: prior_precision_diag_def)
  next
    case 3
    let ?pieces = "map (\<lambda>(prior, n). times_ones prior n) (zip ?pp ?ns)"
    have len: "length ?pp = length ?ns" using 3(1) nl by simp
    have "?pp \<noteq> []" "params s \<noteq> []" using 3 np nl by auto
    then have ne: "?pieces \<noteq> []" by (cases ?pp; cases "params s") simp_all
    have "length (concat ?pieces) = sum_list ?ns"
      using len by (rule length_pieces)
    with 3 ne np show ?thesis
      by (intro that[of "concat ?pieces"]) (simp_all add: prior_precision_diag_def Let_def)
  qed
qed

text \<open>
  Claim C1. For a fitted Dense or Diagonal approximation, the \<^verbatim>\<open>posterior_precision\<close>
  property returns \<open>H_factor * H + diag(prior_precision_diag)\<close> with
  \<open>H_factor = 1 / (sigma_noise\<^sup>2 * temperature)\<close>, computed from the current \<open>H\<close>, noise,
  temperature and prior precision: entry by entry for the matrix of \<^verbatim>\<open>FullLaplace\<close>, and
  elementwise for the vector of \<^verbatim>\<open>DiagLaplace\<close>. The arithmetic is that of the reals.
\<close>

theorem posterior_precision_formula:
  assumes counts: "consistent_counts s" and prior: "prior_precision_valid s"
  shows "H_factor s = 1 / ((sigma_noise s)\<^sup>2 * temperature s)
    \<and> (\<forall>A. H s = Some (Dense A) \<and> square_of_size (n_params s) A \<longrightarrow>
          (\<exists>P p0. FullLaplace_posterior_precision s = Inr P \<and> prior_precision_diag s = Inr p0
             \<and> square_of_size (n_params s) P
             \<and> (\<forall>i < n_params s. \<forall>j < n_params s.
                   P ! i ! j = H_factor s * A ! i ! j + (if i = j then p0 ! i else 0))))
    \<and> (\<forall>h. H s = Some (Diagonal h) \<and> length h = n_params s \<longrightarrow>
          (\<exists>P p0. DiagLaplace_posterior_precision s = Inr P \<and> prior_precision_diag s = Inr p0
             \<and> length P = n_params s
             \<and> (\<forall>i < n_params s. P ! i = H_factor s * h ! i + p0 ! i)))"
proof (intro conjI allI impI)
  show "H_factor s = 1 / ((sigma_noise s)\<^sup>2 * temperature s)" by (rule H_factor_eq)
next
  fix A assume "H s = Some (Dense A) \<and> square_of_size (n_params s) A"
  then have HA: "H s = Some (Dense A)" and lenA: "length A = n_params s"
    and rows: "\<And>i. i < n_params s \<Longrightarrow> length (A ! i) = n_params s"
    by (auto simp: square_of_size_def)
  from prior_precision_diag_length[OF counts prior]
  obtain p0 where p0: "prior_precision_diag s = Inr p0" "length p0 = n_params s" .
  let ?S = "scalar_times_mat (H_factor s) A" and ?D = "torch_diag p0"
  let ?P = "map (\<lambda>(r, q). map (\<lambda>(x, y). x + y) (zip r q)) (zip ?S ?D)"
  have lenS: "length ?S = n_params s" and lenD: "length ?D = n_params s"
    using lenA p0(2) by (simp_all add: scalar_times_mat_def torch_diag_def)
  have rowS: "length (?S ! i) = n_params s" if "i < n_params s" for i
    using that lenA rows by (simp add: scalar_times_mat_def scalar_times_vec_def)
  have rowD: "length (?D ! i) = n_params s" if "i < n_params s" for i
    using that p0(2) by (simp add: torch_diag_def)
  have "bcast_mat (+) ?S ?D = Some ?P"
    by (rule bcast_mat_same) (simp_all add: lenS lenD rowS rowD)
  with HA p0 have res: "FullLaplace_posterior_precision s = Inr ?P"
    by (simp add: FullLaplace_posterior_precision_def check_H_init_def Let_def)
  have entry: "?P ! i ! j = H_factor s * A ! i ! j + (if i = j then p0 ! i else 0)"
    if "i < n_params s" "j < n_params s" for i j
  proof -
    have "?P ! i ! j = ?S ! i ! j + ?D ! i ! j"
      using that lenS lenD rowS rowD by simp
    also have "?S ! i ! j = H_factor s * A ! i ! j"
      using that lenA rows by (simp add: scalar_times_mat_def scalar_times_vec_def)
    also have "?D ! i ! j = (if i = j then p0 ! i else 0)"
      using that p0(2) by (simp add: torch_diag_nth)
    finally show ?thesis .
  qed
  have shape: "square_of_size (n_params s) ?P"
    unfolding square_of_size_def
  proof (intro conjI ballI)
    show "length ?P = n_params s" using lenS lenD by simp
  next
    fix row assume "row \<in> set ?P"
    then obtain i where "i < length ?P" "row = ?P ! i" by (auto simp: in_set_conv_nth)
    then show "length row = n_params s" using lenS lenD rowS rowD by simp
  qed
  from res p0(1) shape entry
  show "\<exists>P p0. FullLaplace_posterior_precision s = Inr P \<and> prior_precision_diag s = Inr p0
             \<and> square_of_size (n_params s) P
             \<and> (\<forall>i < n_params s. \<forall>j < n_params s.
                   P ! i ! j = H_factor s * A ! i ! j + (if i = j then p0 ! i else 0))"
    by blast
next
  fix h assume "H s = Some (Diagonal h) \<and> length h = n_params s"
  then have Hh: "H s = Some (Diagonal h)" and lenh: "length h = n_params s" by simp_all
  from prior_precision_diag_length[OF counts prior]
  obtain p0 where p0: "prior_precision_diag s = Inr p0" "length p0 = n_params s" .
  let ?S = "scalar_times_vec (H_factor s) h"
  let ?P = "map (\<lambda>(x, y). x + y) (zip ?S p0)"
  have lenS: "length ?S = n_params s" using lenh by (simp add: scalar_times_vec_def)
  then have "bcast_vec (+) ?S p0 = Some ?P" using p0(2) by (simp add: bcast_vec_same)
  with Hh p0 have res: "DiagLaplace_posterior_precision s = Inr ?P"
    by (simp add: DiagLaplace_posterior_precision_def check_H_init_def Let_def)
  have "?P ! i = H_factor s * h ! i + p0 ! i" if "i < n_params s" for i
    using that lenS p0(2) lenh by (simp add: scalar_times_vec_def)
  moreover have "length ?P = n_params s" using lenS p0(2) by simp
  ultimately show "\<exists>P p0. DiagLaplace_posterior_precision s = Inr P
             \<and> prior_precision_diag s = Inr p0 \<and> length P = n_params s
             \<and> (\<forall>i < n_params s. P ! i = H_factor s * h ! i + p0 ! i)"
    using res p0(1) by blast
qed

theorem posterior_precision_formula_witness:
  "consistent_counts (ex_fitted DiagLaplace ex_model ''regression'' (PyScalar 1))
   \<and> prior_precision_valid (ex_fitted DiagLaplace ex_model ''regression'' (PyScalar 1))
   \<and> H (ex_fitted DiagLaplace ex_model ''regression'' (PyScalar 1)) = Some (Diagonal [2, 2, 2])
   \<and> (\<exists>P p0. DiagLaplace_posterior_precision
                 (ex_fitted DiagLaplace ex_model ''regression'' (PyScalar 1)) = Inr P
          \<and> prior_precision_diag (ex_fitted DiagLaplace ex_model ''regression'' (PyScalar 1))
              = Inr p0
          \<and> length P = 3
          \<and> (\<forall>i < 3. P ! i = 1 * [2, 2, 2] ! i + p0 ! i))
   \<and> consistent_counts (ex_fitted FullLaplace ex_model ''regression'' (PyScalar 1))
   \<and> prior_precision_valid (ex_fitted FullLaplace ex_model ''regression'' (PyScalar 1))
   \<and> H (ex_fitted FullLaplace ex_model ''regression'' (PyScalar 1))
       = Some (Dense [[2, 2, 2], [2, 2, 2], [2, 2, 2]])
   \<and> (\<exists>P p0. FullLaplace_posterior_precision
                 (ex_fitted FullLaplace ex_model ''regression'' (PyScalar 1)) = Inr P
          \<and> prior_precision_diag (ex_fitted FullLaplace ex_model ''regression'' (PyScalar 1))
              = Inr p0
          \<and> (\<forall>i < 3. \<forall>j < 3. P ! i ! j
                = 1 * [[2, 2, 2], [2, 2, 2], [2, 2, 2]] ! i ! j + (if i = j then p0 ! i else 0)))"
proof -
  let ?d = "ex_fitted DiagLaplace ex_model ''regression'' (PyScalar 1)"
  let ?f = "ex_fitted FullLaplace ex_model ''regression'' (PyScalar 1)"
  have d: "consistent_counts ?d" "prior_precision_valid ?d" "H ?d = Some (Diagonal [2, 2, 2])"
    "n_params ?d = 3" "H_factor ?d = 1"
    by (simp_all add: ex_fitted_def ex_object_def consistent_counts_def prior_precision_valid_def
        H_factor_def init_defs fit_defs)
  have f: "consistent_counts ?f" "prior_precision_valid ?f"
    "H ?f = Some (Dense [[2, 2, 2], [2, 2, 2], [2, 2, 2]])" "n_params ?f = 3" "H_factor ?f = 1"
    by (simp_all add: ex_fitted_def ex_object_def consistent_counts_def prior_precision_valid_def
        H_factor_def init_defs fit_defs numeral_3_eq_3)
  have sq: "square_of_size 3 [[2, 2, 2], [2, 2, 2], [2, 2, 2 :: real]]"
    by (simp add: square_of_size_def)
  from posterior_precision_formula[OF d(1,2)] d(3,4,5)
  have "\<exists>P p0. DiagLaplace_posterior_precision ?d = Inr P \<and> prior_precision_diag ?d = Inr p0
          \<and> length P = 3 \<and> (\<forall>i < 3. P ! i = 1 * [2, 2, 2] ! i + p0 ! i)"
    by simp
  moreover from posterior_precision_formula[OF f(1,2)] f(3,4,5) sq
  have "\<exists>P p0. FullLaplace_posterior_precision ?f = Inr P \<and> prior_precision_diag ?f = Inr p0
          \<and> (\<forall>i < 3. \<forall>j < 3. P ! i ! j
                = 1 * [[2, 2, 2], [2, 2, 2], [2, 2, 2]] ! i ! j + (if i = j then p0 ! i else 0))"
    by fastforce
  ultimately show ?thesis using d(1,2,3) f(1,2,3) by blast
qed

section \<open>Fitting in two halves\<close>

lemma accumulate_append:
  "accumulate c N (xs @ ys) s =
     (case accumulate c N xs s of
        Raises e s' \<Rightarrow> Raises e s'
      | Returns u s' \<Rightarrow> accumulate c N ys s')"
  by (induction xs arbitrary: s) (auto split: sum.splits prod.splits simp: Let_def)

lemma curv_closure_cong:
  assumes "variant s = variant t" "parameters (model s) = parameters (model t)"
    and "variant s = FullLaplace \<or> variant s = DiagLaplace" "backend_ignores_N c"
  shows "curv_closure c s d N = curv_closure c t d N'"
proof -
  from assms(4) have
    "backend_full c (parameters (model t)) d N = backend_full c (parameters (model t)) d N'"
    "backend_diag c (parameters (model t)) d N = backend_diag c (parameters (model t)) d N'"
    unfolding backend_ignores_N_def by blast+
  with assms(1-3) show ?thesis
    by (auto simp: curv_closure_def)
qed

lemma accumulate_frame:
  "accumulate c N bs s = Returns u s' \<Longrightarrow>
     variant s' = variant s \<and> model s' = model s \<and> n_data s' = n_data s"
proof (induction bs arbitrary: s)
  case Nil
  then show ?case by simp
next
  case (Cons d bs)
  from Cons.prems obtain lb hb h where
    "accumulate c N bs (s\<lparr>loss := loss s + lb, H := Some h\<rparr>) = Returns u s'"
    by (auto split: sum.splits prod.splits simp: Let_def)
  from Cons.IH[OF this] show ?case by simp
qed

lemma accumulate_rel:
  assumes "variant s = variant t" "parameters (model s) = parameters (model t)"
    and "loss s = loss t" "H s = H t"
    and "variant s = FullLaplace \<or> variant s = DiagLaplace" "backend_ignores_N c"
    and "accumulate c N bs s = Returns u s'"
  shows "\<exists>t'. accumulate c N' bs t = Returns () t' \<and> loss t' = loss s' \<and> H t' = H s'"
  using assms
proof (induction bs arbitrary: s t)
  case Nil
  then show ?case by simp
next
  case (Cons d bs)
  have cc: "curv_closure c s d N = curv_closure c t d N'"
    using Cons.prems(1,2,5,6) by (rule curv_closure_cong)
  from Cons.prems(7) obtain lb hb h where
    step: "curv_closure c s d N = Inr (lb, hb)" "H_iadd c (H s) hb = Inr h"
    and rest: "accumulate c N bs (s\<lparr>loss := loss s + lb, H := Some h\<rparr>) = Returns u s'"
    by (auto split: sum.splits prod.splits simp: Let_def)
  let ?s1 = "s\<lparr>loss := loss s + lb, H := Some h\<rparr>"
  let ?t1 = "t\<lparr>loss := loss t + lb, H := Some h\<rparr>"
  have "\<exists>t'. accumulate c N' bs ?t1 = Returns () t' \<and> loss t' = loss s' \<and> H t' = H s'"
    by (rule Cons.IH[of ?s1 ?t1]) (use Cons.prems rest in simp_all)
  moreover have "accumulate c N' (d # bs) t = accumulate c N' bs ?t1"
    using step cc Cons.prems(4) by (simp add: Let_def)
  ultimately show ?case by simp
qed

lemma init_H_frame:
  "init_H c s = Returns u s' \<Longrightarrow> s' = s\<lparr>H := H s'\<rparr>"
  by (auto simp: init_H_def split: variant.splits)

lemma fit_start_frame:
  "variant (fit_start c ov s d) = variant s"
  "parameters (model (fit_start c ov s d)) = parameters (model s)"
  "backend_cls (fit_start c ov s d) = backend_cls s"
  "n_data (fit_start c False s d) = n_data s"
  "loss (fit_start c False s d) = loss s"
  "H (fit_start c False s d) = H s"
  by (auto simp: fit_start_def Let_def init_H_def split: variant.splits outcome.splits)

lemma ParametricLaplace_fit_unfold:
  assumes "variant s = FullLaplace \<or> variant s = DiagLaplace"
  shows "ParametricLaplace_fit c ld ov s = Returns u s' \<longleftrightarrow>
     (\<exists>d rest r. batches ld = d # rest \<and> params s \<noteq> []
        \<and> \<not> (is_mapping d \<and> variant s = DiagLaplace \<and> backend_cls s = CurvlinopsEF)
        \<and> accumulate c (dataset_len ld) (batches ld) (fit_start c ov s d) = Returns () r
        \<and> s' = r\<lparr>n_data := n_data r + dataset_len ld\<rparr>)"
  using assms
  by (cases "batches ld"; cases "filter requires_grad (parameters (model s)) = []")
     (auto simp: ParametricLaplace_fit_def fit_start_def init_H_def Let_def
           flatten_parameters_def params_def
           split: outcome.splits if_splits)

lemma fit_unfold:
  assumes "variant s = FullLaplace \<or> variant s = DiagLaplace"
  shows "fit c ld ov s = Returns u s' \<longleftrightarrow>
     (\<exists>d rest r s0. batches ld = d # rest \<and> params s \<noteq> []
        \<and> \<not> (is_mapping d \<and> variant s = DiagLaplace \<and> backend_cls s = CurvlinopsEF)
        \<and> s0 = (if variant s = FullLaplace then s\<lparr>posterior_scale_cached := False\<rparr> else s)
        \<and> accumulate c (dataset_len ld) (batches ld) (fit_start c ov s0 d) = Returns () r
        \<and> s' = r\<lparr>n_data := n_data r + dataset_len ld\<rparr>)"
proof (cases "variant s = FullLaplace")
  case True
  then have "fit c ld ov s
      = ParametricLaplace_fit c ld ov (s\<lparr>posterior_scale_cached := False\<rparr>)"
    by (simp add: fit_def)
  with True show ?thesis
    using ParametricLaplace_fit_unfold[of "s\<lparr>posterior_scale_cached := False\<rparr>" c ld ov u s']
    by (simp add: params_def)
next
  case False
  with assms have "variant s = DiagLaplace" by simp
  then have "fit c ld ov s = ParametricLaplace_fit c ld ov s" by (simp add: fit_def)
  with False assms show ?thesis
    using ParametricLaplace_fit_unfold[of s c ld ov u s'] by simp
qed

text \<open>
  Claim C2. For the Dense and Diagonal variants: fitting on the first half of a data stream
  and then calling \<^verbatim>\<open>fit\<close> on the second half with \<^verbatim>\<open>override=False\<close> yields the same
  \<open>H\<close>, \<open>loss\<close> and \<open>n_data\<close> as a single fit on the concatenated stream. The backend is
  a collaborator: its contribution for a batch is taken not to depend on the data set size
  \<open>N\<close> that \<^verbatim>\<open>fit\<close> passes along. The batches are summed in the same order in both runs,
  so the results are equal.
\<close>

theorem sequential_fit_equals_joint_fit:
  assumes var: "variant s = FullLaplace \<or> variant s = DiagLaplace"
    and bk: "backend_ignores_N c"
    and first: "fit c l1 ov s = Returns u1 s1"
    and second: "fit c l2 False s1 = Returns u2 s2"
  shows "\<exists>s12. fit c (concat_loaders l1 l2) ov s = Returns () s12
           \<and> H s12 = H s2 \<and> loss s12 = loss s2 \<and> n_data s12 = n_data s2"
proof -
  let ?N1 = "dataset_len l1" and ?N2 = "dataset_len l2"
  define s0 where "s0 = (if variant s = FullLaplace then s\<lparr>posterior_scale_cached := False\<rparr> else s)"
  from first var obtain d1 rest1 r1 where
    b1: "batches l1 = d1 # rest1" and ne: "params s \<noteq> []"
    and g1: "\<not> (is_mapping d1 \<and> variant s = DiagLaplace \<and> backend_cls s = CurvlinopsEF)"
    and a1: "accumulate c ?N1 (batches l1) (fit_start c ov s0 d1) = Returns () r1"
    and s1: "s1 = r1\<lparr>n_data := n_data r1 + ?N1\<rparr>"
    unfolding s0_def by (auto simp: fit_unfold)
  let ?q1 = "fit_start c ov s0 d1"
  have vs0: "variant s0 = variant s" by (simp add: s0_def)
  have fr1: "variant r1 = variant ?q1" "model r1 = model ?q1" "n_data r1 = n_data ?q1"
    using accumulate_frame[OF a1] by simp_all
  have vq1: "variant ?q1 = variant s" by (simp add: fit_start_frame vs0)
  have var1: "variant s1 = FullLaplace \<or> variant s1 = DiagLaplace"
    using var s1 fr1 vq1 by simp
  define s1' where "s1' = (if variant s1 = FullLaplace then s1\<lparr>posterior_scale_cached := False\<rparr> else s1)"
  from second var1 obtain d2 rest2 r2 where
    b2: "batches l2 = d2 # rest2"
    and a2: "accumulate c ?N2 (batches l2) (fit_start c False s1' d2) = Returns () r2"
    and s2: "s2 = r2\<lparr>n_data := n_data r2 + ?N2\<rparr>"
    unfolding s1'_def by (auto simp: fit_unfold)
  let ?q2 = "fit_start c False s1' d2"
  have q2: "variant ?q2 = variant s" "parameters (model ?q2) = parameters (model r1)"
    "loss ?q2 = loss r1" "H ?q2 = H r1" "n_data ?q2 = n_data r1 + ?N1"
    using s1 fr1 vq1 by (simp_all add: fit_start_frame s1'_def)
  \<comment> \<open>the joint run over the first half\<close>
  have "\<exists>t. accumulate c (?N1 + ?N2) (batches l1) ?q1 = Returns () t
          \<and> loss t = loss r1 \<and> H t = H r1"
    by (rule accumulate_rel[OF _ _ _ _ _ bk a1]) (use var vq1 in simp_all)
  then obtain t1 where
    j1: "accumulate c (?N1 + ?N2) (batches l1) ?q1 = Returns () t1"
    and t1: "loss t1 = loss r1" "H t1 = H r1" by blast
  have ft1: "variant t1 = variant ?q1" "model t1 = model ?q1" "n_data t1 = n_data ?q1"
    using accumulate_frame[OF j1] by simp_all
  \<comment> \<open>the joint run over the second half\<close>
  have "\<exists>t. accumulate c (?N1 + ?N2) (batches l2) t1 = Returns () t
          \<and> loss t = loss r2 \<and> H t = H r2"
    by (rule accumulate_rel[OF _ _ _ _ _ bk a2])
       (use var q2 t1 ft1 fr1 vq1 in simp_all)
  then obtain t2 where
    j2: "accumulate c (?N1 + ?N2) (batches l2) t1 = Returns () t2"
    and t2: "loss t2 = loss r2" "H t2 = H r2" by blast
  have ft2: "n_data t2 = n_data t1" using accumulate_frame[OF j2] by simp
  have fr2: "n_data r2 = n_data ?q2" using accumulate_frame[OF a2] by simp
  have joint: "accumulate c (?N1 + ?N2) (batches l1 @ batches l2) ?q1 = Returns () t2"
    using j1 j2 by (simp add: accumulate_append)
  let ?s12 = "t2\<lparr>n_data := n_data t2 + (?N1 + ?N2)\<rparr>"
  have "fit c (concat_loaders l1 l2) ov s = Returns () ?s12"
    using var b1 ne g1 joint unfolding fit_unfold[OF var] s0_def
    by (simp add: concat_loaders_def)
  moreover have "H ?s12 = H s2" "loss ?s12 = loss s2" using t2 s2 by simp_all
  moreover have "n_data ?s12 = n_data s2"
    using s2 fr2 q2(5) ft2 ft1(3) fr1(3) by simp
  ultimately show ?thesis by blast
qed

theorem sequential_fit_equals_joint_fit_witness:
  "(variant (ex_object DiagLaplace ex_model ''regression'' (PyScalar 1)) = FullLaplace
      \<or> variant (ex_object DiagLaplace ex_model ''regression'' (PyScalar 1)) = DiagLaplace)
   \<and> backend_ignores_N ex_collab
   \<and> (\<exists>s1 s2 s12.
         fit ex_collab ex_loader True (ex_object DiagLaplace ex_model ''regression'' (PyScalar 1))
           = Returns () s1
       \<and> fit ex_collab ex_loader False s1 = Returns () s2
       \<and> fit ex_collab (concat_loaders ex_loader ex_loader) True
             (ex_object DiagLaplace ex_model ''regression'' (PyScalar 1)) = Returns () s12
       \<and> H s12 = H s2 \<and> loss s12 = loss s2 \<and> n_data s12 = n_data s2
       \<and> H s2 = Some (Diagonal [4, 4, 4]) \<and> loss s2 = 4 \<and> n_data s2 = 8)"
proof -
  let ?s = "ex_object DiagLaplace ex_model ''regression'' (PyScalar 1)"
  have v: "variant ?s = FullLaplace \<or> variant ?s = DiagLaplace"
    by (simp add: ex_object_def init_defs)
  have bk: "backend_ignores_N ex_collab"
    by (simp add: backend_ignores_N_def ex_collab_def)
  obtain s1 where f1: "fit ex_collab ex_loader True ?s = Returns () s1"
    by (simp add: ex_object_def init_defs fit_defs)
  have "\<exists>s2. fit ex_collab ex_loader False s1 = Returns () s2
           \<and> H s2 = Some (Diagonal [4, 4, 4]) \<and> loss s2 = 4 \<and> n_data s2 = 8"
    using f1 by (auto simp add: ex_object_def init_defs fit_defs)
  then obtain s2 where f2: "fit ex_collab ex_loader False s1 = Returns () s2"
    and r2: "H s2 = Some (Diagonal [4, 4, 4])" "loss s2 = 4" "n_data s2 = 8" by blast
  from sequential_fit_equals_joint_fit[OF v bk f1 f2] f1 f2 r2 v bk show ?thesis by blast
qed

section \<open>The mean after a fit\<close>

lemma accumulate_keeps:
  "accumulate c N bs s = Returns u s' \<Longrightarrow>
     mean s' = mean s \<and> model s' = model s \<and> n_params s' = n_params s
     \<and> n_layers s' = n_layers s \<and> variant s' = variant s \<and> n_data s' = n_data s"
proof (induction bs arbitrary: s)
  case Nil
  then show ?case by simp
next
  case (Cons d bs)
  from Cons.prems obtain lb hb h where
    "accumulate c N bs (s\<lparr>loss := loss s + lb, H := Some h\<rparr>) = Returns u s'"
    by (auto split: sum.splits prod.splits simp: Let_def)
  from Cons.IH[OF this] show ?case by simp
qed

lemma init_H_keeps:
  "init_H c s = Returns u s' \<Longrightarrow>
     mean s' = mean s \<and> model s' = model s \<and> n_params s' = n_params s
     \<and> n_layers s' = n_layers s \<and> variant s' = variant s \<and> H_facs s' = H_facs s
     \<and> n_data s' = n_data s"
  by (auto simp: init_H_def split: variant.splits)

lemma ParametricLaplace_fit_mean:
  assumes "ParametricLaplace_fit c ld ov s = Returns u s'"
  shows "mean s' = Dim1 (parameters_to_vector (params s))
       \<and> parameters (model s') = parameters (model s)
       \<and> n_params s' = n_params s \<and> n_layers s' = n_layers s \<and> variant s' = variant s"
proof (cases ov)
  case False
  with assms show ?thesis
    by (auto simp: ParametricLaplace_fit_def Let_def params_def flatten_parameters_def
        simp del: accumulate.simps
        split: if_splits outcome.splits list.splits dest!: accumulate_keeps)
next
  case True
  with assms obtain v t where t: "init_H c s = Returns v t"
    by (cases "init_H c s") (simp_all add: ParametricLaplace_fit_def)
  from init_H_keeps[OF t] True t assms show ?thesis
    by (auto simp: ParametricLaplace_fit_def Let_def params_def flatten_parameters_def
        simp del: accumulate.simps
        split: if_splits outcome.splits list.splits dest!: accumulate_keeps)
qed

lemma KronLaplace_fit_mean:
  assumes "KronLaplace_fit c ld ov s = Returns u s'"
  shows "mean s' = Dim1 (parameters_to_vector (params s))
       \<and> parameters (model s') = parameters (model s)
       \<and> n_params s' = n_params s \<and> n_layers s' = n_layers s \<and> variant s' = variant s"
proof (cases "H_facs (if ov then s\<lparr>H_facs := None\<rparr> else s)")
  case None
  with assms obtain v t where
    "ParametricLaplace_fit c ld ov (if ov then s\<lparr>H_facs := None\<rparr> else s) = Returns v t"
    and "mean s' = mean t" "model s' = model t" "n_params s' = n_params t"
      "n_layers s' = n_layers t" "variant s' = variant t"
    by (auto simp: KronLaplace_fit_def Let_def
        split: outcome.splits option.splits curvature.splits if_splits)
  with ParametricLaplace_fit_mean[OF this(1)] show ?thesis
    by (auto simp: params_def split: if_splits)
next
  case (Some facs)
  then have ov: "\<not> ov" by (auto split: if_splits)
  with Some assms obtain v1 t1 v t k where
    i: "init_H c s = Returns v1 t1"
    and f: "ParametricLaplace_fit c ld ov (t1\<lparr>H_facs := Some k\<rparr>) = Returns v t"
    and "mean s' = mean t" "model s' = model t" "n_params s' = n_params t"
      "n_layers s' = n_layers t" "variant s' = variant t"
    by (auto simp: KronLaplace_fit_def Let_def
        split: outcome.splits option.splits curvature.splits if_splits prod.splits)
  with ParametricLaplace_fit_mean[OF f] init_H_keeps[OF i] show ?thesis
    by (auto simp: params_def)
qed

lemma fit_mean_additive_variants:
  assumes "variant s \<in> {FullLaplace, KronLaplace, DiagLaplace}"
    and "fit c ld ov s = Returns u s'"
  shows "mean s' = Dim1 (parameters_to_vector (params s'))
       \<and> params s' = params s
       \<and> (n_params s = sum_list (map numel (params s)) \<longrightarrow>
            length (parameters_to_vector (params s')) = n_params s')"
proof -
  have "mean s' = Dim1 (parameters_to_vector (params s))
       \<and> parameters (model s') = parameters (model s)
       \<and> n_params s' = n_params s"
    using assms ParametricLaplace_fit_mean[of c ld ov s u s']
      ParametricLaplace_fit_mean[of c ld ov "s\<lparr>posterior_scale_cached := False\<rparr>" u s']
      KronLaplace_fit_mean[of c ld ov s u s']
    by (auto simp: fit_def params_def)
  then show ?thesis
    by (simp add: params_def length_parameters_to_vector)
qed

text \<open>
  Claim C4, at the input where the source departs from it. The predictor has a frozen tensor
  \<open>[5]\<close> in front of the trainable tensor \<open>[1, 2]\<close>, so \<^verbatim>\<open>n_params\<close> is 2.
  \<^verbatim>\<open>LowRankLaplace.fit\<close> flattens \<^verbatim>\<open>self.model.parameters()\<close> (line 1419) where
  \<^verbatim>\<open>ParametricLaplace.fit\<close> flattens \<^verbatim>\<open>self.params\<close> (line 545): after the fit the
  mean is \<open>[5, 1, 2]\<close>, which is neither the flattened trainable parameters \<open>[1, 2]\<close> nor
  of length \<^verbatim>\<open>n_params\<close>. For the Dense, Kronecker and Diagonal variants the claim holds
  (\<open>fit_mean_additive_variants\<close>).
\<close>

theorem lowrank_mean_includes_frozen:
  "\<exists>s'. fit ex_collab ex_loader True (ex_object LowRankLaplace ex_frozen_model ''regression'' (PyScalar 1))
           = Returns () s'
       \<and> mean s' = Dim1 [5, 1, 2]
       \<and> parameters_to_vector (params s') = [1, 2]
       \<and> n_params s' = 2"
  by (simp add: ex_object_def init_defs fit_defs)


section \<open>No incremental fit for the low-rank variant\<close>

text \<open>
  Claim C5. For the low-rank variant, every call of \<^verbatim>\<open>fit\<close> with \<^verbatim>\<open>override=False\<close>
  raises the error ``LowRank LA does not support updating.'' and leaves the object as it was;
  in particular a second, incremental fit after any fit that returned fails in this way.
\<close>

theorem lowrank_no_update:
  assumes "variant s = LowRankLaplace"
  shows "fit c ld False s = Raises (ValueError ''LowRank LA does not support updating.'') s
       \<and> (\<forall>ld1 ov u s1. fit c ld1 ov s = Returns u s1 \<longrightarrow>
            fit c ld False s1 = Raises (ValueError ''LowRank LA does not support updating.'') s1)"
proof (intro conjI allI impI)
  show "fit c ld False s = Raises (ValueError ''LowRank LA does not support updating.'') s"
    using assms by (simp add: fit_def LowRankLaplace_fit_def)
next
  fix ld1 ov u s1
  assume "fit c ld1 ov s = Returns u s1"
  with assms have "variant s1 = LowRankLaplace"
    by (auto simp: fit_def LowRankLaplace_fit_def Let_def flatten_parameters_def
        split: if_splits list.splits prod.splits batch.splits)
  then show "fit c ld False s1 = Raises (ValueError ''LowRank LA does not support updating.'') s1"
    by (simp add: fit_def LowRankLaplace_fit_def)
qed

theorem lowrank_no_update_witness:
  "variant (ex_object LowRankLaplace ex_model ''regression'' (PyScalar 1)) = LowRankLaplace
   \<and> (\<exists>s1. fit ex_collab ex_loader True (ex_object LowRankLaplace ex_model ''regression'' (PyScalar 1))
              = Returns () s1
          \<and> fit ex_collab ex_loader False s1
              = Raises (ValueError ''LowRank LA does not support updating.'') s1)"
proof -
  let ?s = "ex_object LowRankLaplace ex_model ''regression'' (PyScalar 1)"
  have v: "variant ?s = LowRankLaplace" by (simp add: ex_object_def init_defs)
  obtain s1 where f: "fit ex_collab ex_loader True ?s = Returns () s1"
    by (simp add: ex_object_def init_defs fit_defs)
  from lowrank_no_update[OF v, of ex_collab ex_loader] f v show ?thesis by blast
qed

section \<open>Noise scale outside regression\<close>

lemma set_prior_precision_keeps_likelihood:
  "set_prior_precision a s = Returns u s' \<Longrightarrow> likelihood s' = likelihood s"
  "set_prior_precision a s = Raises e s' \<Longrightarrow>
     likelihood s' = likelihood s \<and> sigma_noise s' = sigma_noise s"
  by (auto simp: set_prior_precision_def set_prior_precision_base_def Let_def on_device_def
      split: pyarg.splits if_splits outcome.splits)

text \<open>Two of the three paths of claim C3 do fail: the constructor rejects every noise
  argument that differs from 1 when the likelihood is not regression, and
  \<^verbatim>\<open>log_marginal_likelihood\<close> rejects every noise argument then.\<close>

lemma init_rejects_noise:
  assumes "arg_likelihood a \<noteq> ''regression''" "differs_from_one (arg_sigma_noise a) \<noteq> Inr False"
  shows "\<exists>e. BaseLaplace_init a bp backend s0 = Inl e"
proof (cases "differs_from_one (arg_sigma_noise a)")
  case (Inl e)
  then show ?thesis
    by (auto simp: BaseLaplace_init_def Let_def split: outcome.splits)
next
  case (Inr b)
  with assms(2) have "b" by simp
  with Inr assms(1) show ?thesis
    by (auto simp: BaseLaplace_init_def Let_def split: outcome.splits)
qed

lemma log_marginal_likelihood_rejects_noise:
  assumes "likelihood s \<noteq> ''regression''"
  shows "\<exists>e s'. log_marginal_likelihood c pp (Some sn) s = Raises e s'
           \<and> sigma_noise s' = sigma_noise s"
proof (cases pp)
  case None
  with assms show ?thesis by (simp add: log_marginal_likelihood_def)
next
  case (Some a)
  show ?thesis
  proof (cases "set_prior_precision a s")
    case (Returns u s1)
    with set_prior_precision_keeps_likelihood(1)[OF this] assms Some
    have "log_marginal_likelihood c pp (Some sn) s
        = Raises (ValueError ''Can only change sigma_noise for regression.'') s1"
      by (simp add: log_marginal_likelihood_def)
    moreover have "sigma_noise s1 = sigma_noise s"
      using Returns
      by (auto simp: set_prior_precision_def set_prior_precision_base_def Let_def on_device_def
          split: pyarg.splits if_splits outcome.splits)
    ultimately show ?thesis by blast
  next
    case (Raises e s1)
    with set_prior_precision_keeps_likelihood(2)[OF this] Some show ?thesis
      by (simp add: log_marginal_likelihood_def)
  qed
qed

text \<open>
  Claim C3, at the input where the source departs from it. On a Diagonal approximation
  constructed for classification, the \<^verbatim>\<open>sigma_noise\<close> setter (lines 437--454) accepts the
  value 2: it returns, the stored likelihood is still classification, the stored noise is 2
  and \<^verbatim>\<open>_H_factor\<close> becomes \<open>1/4\<close>. The setter has no check of the likelihood, where the
  constructor (line 98) and \<^verbatim>\<open>log_marginal_likelihood\<close> (line 698) have one.
\<close>

theorem sigma_noise_setter_accepts_classification:
  "\<exists>s'. set_sigma_noise (PyScalar 2) (ex_object DiagLaplace ex_model ''classification'' (PyScalar 1))
           = Returns () s'
       \<and> likelihood s' = ''classification''
       \<and> sigma_noise s' = 2
       \<and> H_factor s' = 1 / 4"
  by (simp add: ex_object_def init_defs H_factor_def)

section \<open>Network predictive: the parameters are put back\<close>

lemma same_layout_refl: "same_layout ps ps"
  by (simp add: same_layout_def list_all2_refl)

lemma same_layout_trans: "same_layout ps qs \<Longrightarrow> same_layout qs rs \<Longrightarrow> same_layout ps rs"
  unfolding same_layout_def
  by (rule list_all2_trans[where ?P1.0 = "\<lambda>p q. requires_grad q = requires_grad p \<and> numel q = numel p
                     \<and> (\<not> requires_grad p \<longrightarrow> q = p)" and ?P2.0 = "\<lambda>p q. requires_grad q = requires_grad p \<and> numel q = numel p
                     \<and> (\<not> requires_grad p \<longrightarrow> q = p)"]) auto

lemma same_layout_Cons:
  "same_layout (p # ps) (q # qs) \<longleftrightarrow>
     requires_grad q = requires_grad p \<and> numel q = numel p \<and> (\<not> requires_grad p \<longrightarrow> q = p)
     \<and> same_layout ps qs"
  by (simp add: same_layout_def)

lemma same_layout_Nil: "same_layout [] qs \<longleftrightarrow> qs = []" "same_layout ps [] \<longleftrightarrow> ps = []"
  by (simp_all add: same_layout_def)

lemma same_layout_numels:
  "same_layout ps qs \<Longrightarrow>
     sum_list (map numel (filter requires_grad qs)) = sum_list (map numel (filter requires_grad ps))"
  unfolding same_layout_def
  by (induction ps qs rule: list_all2_induct) auto

lemma assign_slices_result:
  "assign_slices v ps = Returns u ps' \<Longrightarrow>
     same_layout ps ps'
     \<and> parameters_to_vector (filter requires_grad ps')
         = take (sum_list (map numel (filter requires_grad ps))) v"
proof (induction ps arbitrary: v ps')
  case Nil
  then show ?case by (simp add: same_layout_Nil parameters_to_vector_def)
next
  case (Cons p ps)
  show ?case
  proof (cases "requires_grad p")
    case False
    with Cons.prems obtain qs where q: "assign_slices v ps = Returns u qs" "ps' = p # qs"
      by (auto split: outcome.splits)
    from Cons.IH[OF q(1)] q(2) False show ?thesis
      by (simp add: same_layout_Cons)
  next
    case True
    with Cons.prems obtain qs where q: "assign_slices (drop (numel p) v) ps = Returns u qs"
      "ps' = p\<lparr>data := take (numel p) v\<rparr> # qs" "length (take (numel p) v) = numel p"
      by (auto split: outcome.splits if_splits)
    from Cons.IH[OF q(1)] q(2,3) True show ?thesis
      by (simp add: same_layout_Cons numel_def parameters_to_vector_def take_add)
  qed
qed

lemma assign_slices_returns:
  "sum_list (map numel (filter requires_grad ps)) \<le> length v \<Longrightarrow>
     \<exists>ps'. assign_slices v ps = Returns () ps'"
proof (induction ps arbitrary: v)
  case Nil
  then show ?case by simp
next
  case (Cons p ps)
  show ?case
  proof (cases "requires_grad p")
    case False
    with Cons.prems Cons.IH[of v] show ?thesis by auto
  next
    case True
    with Cons.prems have "sum_list (map numel (filter requires_grad ps)) \<le> length (drop (numel p) v)"
      "numel p \<le> length v" by simp_all
    with Cons.IH[of "drop (numel p) v"] True show ?thesis by auto
  qed
qed

lemma assign_slices_back:
  "same_layout ps qs \<Longrightarrow>
     assign_slices (parameters_to_vector (filter requires_grad ps) @ w) qs = Returns () ps"
proof (induction ps arbitrary: qs)
  case Nil
  then show ?case by (simp add: same_layout_Nil)
next
  case (Cons p ps)
  then obtain q qs' where qs: "qs = q # qs'" by (cases qs) (simp_all add: same_layout_Nil)
  with Cons.prems have l: "requires_grad q = requires_grad p" "numel q = numel p"
    "\<not> requires_grad p \<longrightarrow> q = p" "same_layout ps qs'"
    by (simp_all add: same_layout_Cons)
  show ?case
  proof (cases "requires_grad p")
    case False
    with l Cons.IH[OF l(4)] qs show ?thesis by simp
  next
    case True
    have "q\<lparr>data := data p\<rparr> = p" using l(1) by (cases p; cases q) simp
    with True l Cons.IH[OF l(4)] qs show ?thesis
      by (simp add: parameters_to_vector_def numel_def)
  qed
qed

lemma with_parameters_same: "with_parameters s (parameters (model s)) = s"
  by (simp add: with_parameters_def)

lemma nn_loop_result:
  "nn_loop c X smps fs s = Returns fs' s' \<Longrightarrow>
     same_layout (parameters (model s)) (parameters (model s'))
     \<and> s' = with_parameters s (parameters (model s'))"
proof (induction smps arbitrary: fs s)
  case Nil
  then show ?case by (simp add: same_layout_refl with_parameters_same)
next
  case (Cons smp smps)
  from Cons.prems obtain ps where
    a: "assign_slices smp (parameters (model s)) = Returns () ps"
    and r: "nn_loop c X smps (fs @ [forward c (parameters (model (with_parameters s ps))) X])
              (with_parameters s ps) = Returns fs' s'"
    by (auto simp: vector_to_parameters_def Let_def split: outcome.splits)
  from Cons.IH[OF r] assign_slices_result[OF a] show ?case
    by (auto simp: with_parameters_def intro: same_layout_trans)
qed

lemma nn_restore:
  assumes loop: "nn_loop c X smps fs0 s = Returns fs s1"
    and m: "mean s = Dim1 m" and len: "length m = sum_list (map numel (params s))"
    and restore: "vector_to_parameters (mean s1) (parameters (model s1)) = Returns u ps"
  shows "parameters_to_vector (params (with_parameters s1 ps)) = m
       \<and> mean (with_parameters s1 ps) = Dim1 m
       \<and> (parameters_to_vector (params s) = m \<longrightarrow>
            parameters (model (with_parameters s1 ps)) = parameters (model s))"
proof -
  let ?P0 = "parameters (model s)" and ?P1 = "parameters (model s1)"
  from nn_loop_result[OF loop] have l01: "same_layout ?P0 ?P1"
    and s1: "s1 = with_parameters s ?P1" by simp_all
  from s1 have ms1: "mean s1 = mean s" by (metis laplace.select_convs(19) laplace.surjective laplace.update_convs(2) with_parameters_def)
  with restore m have a: "assign_slices m ?P1 = Returns u ps"
    by (simp add: vector_to_parameters_def)
  from assign_slices_result[OF a] same_layout_numels[OF l01] len
  have res: "parameters_to_vector (filter requires_grad ps) = m"
    by (simp add: params_def)
  have "ps = ?P0" if "parameters_to_vector (params s) = m"
  proof -
    from assign_slices_back[OF l01, of "[]"] that
    have "assign_slices m ?P1 = Returns () ?P0" by (simp add: params_def)
    with a show ?thesis by simp
  qed
  with res ms1 m show ?thesis
    by (simp add: with_parameters_def params_def)
qed

lemmas nn_defs = ParametricLaplace_call_def reward_switch_def nn_predictive_samples_def
  nn_predictive_classification_def vector_to_parameters_def with_parameters_def

text \<open>
  Claim C9, as the specification words it: after every \<^verbatim>\<open>nn\<close>-mode predictive call
  the trainable parameters are restored to \<open>mean\<close>, so the call leaves the predictor's
  parameters unchanged from before the call. The first half is what lines 916 and 927
  do; the second half does not follow from it. The call writes \<open>mean\<close> into the
  predictor, whatever the predictor held when the call began: for a fitted diagonal
  object whose predictor was trained further to 7, 8, 9 after the fit, the call with
  \<^verbatim>\<open>pred_type='nn'\<close> returns and leaves 1, 2, 3, the values of \<open>mean\<close>, in the
  predictor.
\<close>

theorem nn_call_overwrites_moved_parameters:
  "returned (ParametricLaplace_call ex_collab 0 ''nn'' False ''mc'' 2 False NoGenerator ex_moved)
   \<and> mean ex_moved = Dim1 [1, 2, 3]
   \<and> parameters_to_vector (params ex_moved) = [7, 8, 9]
   \<and> parameters_to_vector
        (params (final_state
           (ParametricLaplace_call ex_collab 0 ''nn'' False ''mc'' 2 False NoGenerator ex_moved)))
       = [1, 2, 3]"
  by (simp add: ex_moved_def ex_fitted_def ex_object_def init_defs fit_defs nn_defs
      numeral_2_eq_2)

text \<open>
  Claim C9, amended. After every \<^verbatim>\<open>nn\<close>-mode predictive call that returns (the
  sampling of \<^verbatim>\<open>_nn_predictive_samples\<close>, the streaming average of
  \<^verbatim>\<open>_nn_predictive_classification\<close>, and \<^verbatim>\<open>__call__\<close> with \<^verbatim>\<open>pred_type='nn'\<close>),
  on an object whose \<open>mean\<close> is a vector with as many entries as the trainable
  parameters have (what \<^verbatim>\<open>ParametricLaplace.fit\<close> leaves), the predictor's trainable
  parameters hold \<open>mean\<close>, and \<open>mean\<close> itself is as before. The call leaves the
  parameters of the predictor as they were before the call exactly when the trainable
  parameters held \<open>mean\<close> when the call began; otherwise it replaces them by \<open>mean\<close>.
\<close>

theorem nn_predictive_restores_mean:
  assumes m: "mean s = Dim1 m" and len: "length m = sum_list (map numel (params s))"
    and call: "nn_predictive_samples c X n s = Returns fs s'
             \<or> nn_predictive_classification c X n s = Returns fs s'
             \<or> ParametricLaplace_call c X ''nn'' joint link n dio gen s = Returns r s'"
  shows "parameters_to_vector (params s') = m \<and> mean s' = Dim1 m
       \<and> (parameters (model s') = parameters (model s)
            \<longleftrightarrow> parameters_to_vector (params s) = m)"
proof -
  have restored: "parameters_to_vector (params s') = m \<and> mean s' = Dim1 m
       \<and> (parameters_to_vector (params s) = m \<longrightarrow> parameters (model s') = parameters (model s))"
  proof -
    have samples: "parameters_to_vector (params t') = m \<and> mean t' = Dim1 m
         \<and> (parameters_to_vector (params t) = m \<longrightarrow> parameters (model t') = parameters (model t))"
      if "nn_predictive_samples c X n t = Returns gs t'" "mean t = Dim1 m"
        "length m = sum_list (map numel (params t))" for t t' gs
    proof -
      from that(1) obtain smps s1 u ps where
        "nn_loop c X smps [] t = Returns gs s1"
        "vector_to_parameters (mean s1) (parameters (model s1)) = Returns u ps"
        "t' = with_parameters s1 ps"
        by (auto simp: nn_predictive_samples_def split: sum.splits outcome.splits if_splits)
      with nn_restore[OF this(1) that(2,3) this(2)] show ?thesis by simp
    qed
    have classification: "parameters_to_vector (params t') = m \<and> mean t' = Dim1 m
         \<and> (parameters_to_vector (params t) = m \<longrightarrow> parameters (model t') = parameters (model t))"
      if "nn_predictive_classification c X n t = Returns gs t'" "mean t = Dim1 m"
        "length m = sum_list (map numel (params t))" for t t' gs
    proof -
      from that(1) obtain smps s1 u ps where
        "nn_loop c X smps [] t = Returns gs s1"
        "vector_to_parameters (mean s1) (parameters (model s1)) = Returns u ps"
        "t' = with_parameters s1 ps"
        by (auto simp: nn_predictive_classification_def split: sum.splits outcome.splits)
      with nn_restore[OF this(1) that(2,3) this(2)] show ?thesis by simp
    qed
    have sw: "mean (reward_switch s) = mean s" "params (reward_switch s) = params s"
      "parameters (model (reward_switch s)) = parameters (model s)"
      by (simp_all add: reward_switch_def params_def)
    from call consider
      (a) "nn_predictive_samples c X n s = Returns fs s'"
      | (b) "nn_predictive_classification c X n s = Returns fs s'"
      | (c) "ParametricLaplace_call c X ''nn'' joint link n dio gen s = Returns r s'" by blast
    then show ?thesis
    proof cases
      case a
      from samples[OF a m len] show ?thesis .
    next
      case b
      from classification[OF b m len] show ?thesis .
    next
      case c
      then consider gs where "nn_predictive_samples c X n (reward_switch s) = Returns gs s'"
        | gs where "nn_predictive_classification c X n (reward_switch s) = Returns gs s'"
        by (auto simp: ParametricLaplace_call_def Let_def split: if_splits outcome.splits)
      then show ?thesis
      proof cases
        case 1
        from samples[OF 1] m len sw show ?thesis by simp
      next
        case 2
        from classification[OF 2] m len sw show ?thesis by simp
      qed
    qed
  qed
  moreover have "parameters_to_vector (params s) = m"
    if "parameters (model s') = parameters (model s)"
  proof -
    from that have "params s' = params s"
      by (simp add: params_def)
    with restored show ?thesis by simp
  qed
  ultimately show ?thesis by blast
qed

theorem nn_predictive_restores_mean_witness:
  "mean (ex_fitted DiagLaplace ex_model ''classification'' (PyScalar 1)) = Dim1 [1, 2, 3]
   \<and> length [1, 2, 3 :: real]
       = sum_list (map numel (params (ex_fitted DiagLaplace ex_model ''classification'' (PyScalar 1))))
   \<and> (\<exists>r s'. ParametricLaplace_call ex_collab 0 ''nn'' False ''mc'' 2 False NoGenerator
                 (ex_fitted DiagLaplace ex_model ''classification'' (PyScalar 1)) = Returns r s'
          \<and> parameters_to_vector (params s') = [1, 2, 3]
          \<and> mean s' = Dim1 [1, 2, 3]
          \<and> parameters (model s')
              = parameters (model (ex_fitted DiagLaplace ex_model ''classification'' (PyScalar 1))))"
proof -
  let ?s = "ex_fitted DiagLaplace ex_model ''classification'' (PyScalar 1)"
  have m: "mean ?s = Dim1 [1, 2, 3]"
    and len: "length [1, 2, 3 :: real] = sum_list (map numel (params ?s))"
    and before: "parameters_to_vector (params ?s) = [1, 2, 3]"
    by (simp_all add: ex_fitted_def ex_object_def init_defs fit_defs)
  obtain r s' where call:
    "ParametricLaplace_call ex_collab 0 ''nn'' False ''mc'' 2 False NoGenerator ?s = Returns r s'"
    by (simp add: ex_fitted_def ex_object_def init_defs fit_defs nn_defs numeral_2_eq_2)
  from nn_predictive_restores_mean[OF m len, of ex_collab 0 2 "[]" s' False "''mc''" False
      NoGenerator r] call before m len
  show ?thesis by blast
qed

section \<open>Reward modelling: classification for fitting, regression for predicting\<close>







lemma rescale_irrelevant:
  "likelihood (s\<lparr>H_facs := x\<rparr>) = likelihood s" "reward_modeling (s\<lparr>H_facs := x\<rparr>) = reward_modeling s"
  by simp_all















end
